theory Spec2Isabelle
  imports Main "HOL-Library.Word"
begin

section \<open>JavaScript values shared by all route handlers\<close>

text \<open>
  A JavaScript string is a sequence of UTF-16 code units; \<open>length\<close>, indexing, \<open>slice\<close>
  and the regular expressions of the source (none carries the \<open>u\<close> flag) all work on code
  units. ASCII literals of the source are written \<open>js ''...''\<close>.
\<close>

type_synonym cu = "16 word"
type_synonym jsstring = "cu list"

definition js :: "string \<Rightarrow> jsstring" where
  "js s = map of_char s"

definition isDigit :: "cu \<Rightarrow> bool" where
  "isDigit c \<longleftrightarrow> 48 \<le> c \<and> c \<le> 57"

definition digitVal :: "cu \<Rightarrow> nat" where
  "digitVal c = unat c - 48"

definition digitsToNat :: "jsstring \<Rightarrow> nat" where
  "digitsToNat ds = foldl (\<lambda>acc c. 10 * acc + digitVal c) 0 ds"

text \<open>\<open>Date.now().toString()\<close>: the decimal digits of a non-negative integer.\<close>

fun showNat :: "nat \<Rightarrow> jsstring" where
  "showNat n = (if n < 10 then [48 + of_nat n]
                else showNat (n div 10) @ [48 + of_nat (n mod 10)])"

declare showNat.simps [simp del]

definition startsWith :: "jsstring \<Rightarrow> jsstring \<Rightarrow> bool" where
  "startsWith s p \<longleftrightarrow> take (length p) s = p"

text \<open>
  The handlers keep their dictionaries in plain objects (\<open>Record<string, ...>\<close>). Reading
  \<open>obj[key]\<close> finds an own property first and a member inherited from
  \<open>Object.prototype\<close> otherwise; assigning a number to \<open>__proto__\<close> changes nothing.
\<close>

definition objectPrototypeKeys :: "jsstring list" where
  "objectPrototypeKeys = map js
     [''constructor'', ''__defineGetter__'', ''__defineSetter__'', ''hasOwnProperty'',
      ''__lookupGetter__'', ''__lookupSetter__'', ''isPrototypeOf'',
      ''propertyIsEnumerable'', ''toString'', ''valueOf'', ''__proto__'',
      ''toLocaleString'']"

datatype 'v propValue = Own 'v | Inherited | Undefined

definition getProp :: "(jsstring \<rightharpoonup> 'v) \<Rightarrow> jsstring \<Rightarrow> 'v propValue" where
  "getProp obj k =
     (case obj k of
        Some v \<Rightarrow> Own v
      | None \<Rightarrow> if k \<in> set objectPrototypeKeys then Inherited else Undefined)"

definition setProp :: "(jsstring \<rightharpoonup> 'v) \<Rightarrow> jsstring \<Rightarrow> 'v \<Rightarrow> (jsstring \<rightharpoonup> 'v)" where
  "setProp obj k v = (if k = js ''__proto__'' then obj else obj(k \<mapsto> v))"

definition deleteProp :: "(jsstring \<rightharpoonup> 'v) \<Rightarrow> jsstring \<Rightarrow> (jsstring \<rightharpoonup> 'v)" where
  "deleteProp obj k = obj(k := None)"


section \<open>Local-model translation route (src/app/api/translate/route.ts)\<close>

text \<open>
  \<open>translationProgress\<close> is the process-wide object from request id to percentage.
  The POST handler starts the translator script and reacts to the events of the Python
  shell; the first \<open>error\<close> or \<open>close\<close> event resolves the response. The world outside the
  handler (request body, clock, file system, the script's event stream and the outcome
  of \<open>JSON.parse\<close> on its last line) is a record of the model.
\<close>

type_synonym translationProgress = "jsstring \<rightharpoonup> nat"

record translateBody =
  trText :: "jsstring option"
  trSourceLang :: "jsstring option"
  trTargetLang :: "jsstring option"
  trRequestId :: "jsstring option"

datatype shellEvent =
    Stderr jsstring
  | Message jsstring
  | ShellError jsstring
  | Close

text \<open>
  What \<open>JSON.parse\<close> makes of the script's last output line: a syntax error, the value
  \<open>null\<close> (reading \<open>.success\<close> of it throws), or a value with its \<open>success === false\<close>
  test, its \<open>error\<close> field and its \<open>translation\<close> field.
\<close>

datatype parsedOutput =
    ParseThrows
  | ParsedNull
  | Parsed (successIsFalse: bool) (errorField: "jsstring option")
           (translationField: "jsstring option")

record translateEnv =
  bodyJson :: "translateBody option"
  dateNow :: nat
  mkdirThrows :: bool
  scriptExists :: bool
  shellSpawnThrows :: bool
  events :: "shellEvent list"
  parseOutcome :: parsedOutput

datatype translateResponse =
    TextRequired400
  | ScriptNotFound500
  | ShellFailed500 jsstring
  | ReportedFailure500 jsstring
  | ParseFailure500 jsstring
  | Success200 "jsstring option"
  | InternalError500

fun statusOf :: "translateResponse \<Rightarrow> nat" where
  "statusOf TextRequired400 = 400"
| "statusOf (Success200 t) = 200"
| "statusOf r = 500"

text \<open>
  \<open>stderr.match(/Translation progress: (\d+)%/)\<close>: the leftmost place where the literal
  is followed by a run of digits and a percent sign; \<open>parseInt\<close> of the digits.
\<close>

definition matchProgressAt :: "jsstring \<Rightarrow> nat option" where
  "matchProgressAt s =
     (if startsWith s (js ''Translation progress: '') then
        (let r = drop 22 s; ds = takeWhile isDigit r; rest = dropWhile isDigit r
         in if ds \<noteq> [] \<and> take 1 rest = js ''%'' then Some (digitsToNat ds) else None)
      else None)"

fun findProgress :: "jsstring \<Rightarrow> nat option" where
  "findProgress [] = None"
| "findProgress (c # cs) =
     (case matchProgressAt (c # cs) of
        Some p \<Rightarrow> Some p
      | None \<Rightarrow> findProgress cs)"

text \<open>The body of the \<open>close\<close> listener; every branch deletes the entry, then resolves.\<close>

definition onClose ::
  "parsedOutput \<Rightarrow> jsstring \<Rightarrow> jsstring \<Rightarrow> translationProgress
     \<Rightarrow> translateResponse \<times> translationProgress" where
  "onClose parsedNonEmpty rid result tp =
     (let parsedResult =
            (if result = [] then Parsed True (Some (js ''No result'')) None
             else parsedNonEmpty)
      in case parsedResult of
           ParseThrows \<Rightarrow> (ParseFailure500 result, deleteProp tp rid)
         | ParsedNull \<Rightarrow> (ParseFailure500 result, deleteProp tp rid)
         | Parsed isFalse err tr \<Rightarrow>
             if isFalse then
               (ReportedFailure500
                  (case err of
                     None \<Rightarrow> js ''Translation failed''
                   | Some e \<Rightarrow> if e = [] then js ''Translation failed'' else e),
                deleteProp tp rid)
             else (Success200 tr, deleteProp tp rid))"

text \<open>
  The listeners, run over the events in order. The result is the response of the first
  \<open>resolve\<close> with the progress object at that moment; \<open>None\<close> when the stream holds no
  terminal event, so that the promise never resolves.
\<close>

fun runShell ::
  "parsedOutput \<Rightarrow> jsstring \<Rightarrow> jsstring \<Rightarrow> translationProgress \<Rightarrow> shellEvent list
     \<Rightarrow> (translateResponse \<times> translationProgress) option" where
  "runShell po rid result tp [] = None"
| "runShell po rid result tp (Stderr s # es) =
     runShell po rid result
       (case findProgress s of Some p \<Rightarrow> setProp tp rid p | None \<Rightarrow> tp) es"
| "runShell po rid result tp (Message m # es) = runShell po rid m tp es"
| "runShell po rid result tp (ShellError d # es) =
     Some (ShellFailed500 d, deleteProp tp rid)"
| "runShell po rid result tp (Close # es) = Some (onClose po rid result tp)"

definition effectiveRequestId :: "translateEnv \<Rightarrow> translateBody \<Rightarrow> jsstring" where
  "effectiveRequestId env b =
     (case trRequestId b of None \<Rightarrow> showNat (dateNow env) | Some r \<Rightarrow> r)"

definition POST_translate ::
  "translateEnv \<Rightarrow> translationProgress
     \<Rightarrow> (translateResponse \<times> translationProgress) option" where
  "POST_translate env tp =
     (case bodyJson env of
        None \<Rightarrow> Some (InternalError500, tp)
      | Some b \<Rightarrow>
          if trText b = None \<or> trText b = Some [] then Some (TextRequired400, tp)
          else if mkdirThrows env then Some (InternalError500, tp)
          else if \<not> scriptExists env then Some (ScriptNotFound500, tp)
          else
            (let rid = effectiveRequestId env b;
                 tp1 = setProp tp rid 1
             in if shellSpawnThrows env then Some (InternalError500, tp1)
                else runShell (parseOutcome env) rid [] tp1 (events env)))"

text \<open>The translation-progress GET: \<open>translationProgress[requestId] || 0\<close>.\<close>

datatype progressResponse =
    RequestIdRequired400
  | Progress200 nat
  | ProgressInheritedMember200

definition GET_translate :: "translationProgress \<Rightarrow> jsstring option \<Rightarrow> progressResponse" where
  "GET_translate tp q =
     (case q of
        None \<Rightarrow> RequestIdRequired400
      | Some rid \<Rightarrow>
          if rid = [] then RequestIdRequired400
          else (case getProp tp rid of
                  Own v \<Rightarrow> Progress200 v
                | Inherited \<Rightarrow> ProgressInheritedMember200
                | Undefined \<Rightarrow> Progress200 0))"

text \<open>The four terminal outcomes of the shell run.\<close>

fun terminalOutcome :: "translateResponse \<Rightarrow> bool" where
  "terminalOutcome (ShellFailed500 d) = True"
| "terminalOutcome (ReportedFailure500 e) = True"
| "terminalOutcome (ParseFailure500 r) = True"
| "terminalOutcome (Success200 t) = True"
| "terminalOutcome r = False"

definition noProgress :: translationProgress where
  "noProgress = Map.empty"

definition emptyIdBody :: translateBody where
  "emptyIdBody = \<lparr>trText = Some (js ''hi''), trSourceLang = None, trTargetLang = None,
                   trRequestId = Some []\<rparr>"

definition emptyIdEnv :: translateEnv where
  "emptyIdEnv = \<lparr>bodyJson = Some emptyIdBody, dateNow = 1700000000000,
                  mkdirThrows = False, scriptExists = True, shellSpawnThrows = False,
                  events = [Stderr (js ''Translation progress: 40%''), Message (js ''{}''), Close],
                  parseOutcome = Parsed False None (Some (js ''shalom''))\<rparr>"

definition numberedBody :: translateBody where
  "numberedBody = \<lparr>trText = Some (js ''hi''), trSourceLang = None, trTargetLang = None,
                    trRequestId = Some (js ''42'')\<rparr>"

definition numberedEnv :: translateEnv where
  "numberedEnv = \<lparr>bodyJson = Some numberedBody, dateNow = 1700000000000,
                   mkdirThrows = False, scriptExists = True, shellSpawnThrows = False,
                   events = [Stderr (js ''Translation progress: 40%''), Message (js ''{}''), Close],
                   parseOutcome = Parsed False None (Some (js ''shalom''))\<rparr>"


section \<open>Download route (src/app/api/translate/route.ts, second handler)\<close>

text \<open>
  \<open>path.normalize\<close>, \<open>path.basename\<close> and \<open>path.extname\<close> are those of Node's POSIX
  \<open>path\<close> module (the handler itself names \<open>/tmp/video_transcriptions\<close>): the path is cut
  at \<open>/\<close>, empty and \<open>.\<close> segments are dropped, a \<open>..\<close> segment removes the segment
  before it, or is kept at the front of a relative path.
\<close>

fun splitOn :: "cu \<Rightarrow> jsstring \<Rightarrow> jsstring list" where
  "splitOn sep [] = [[]]"
| "splitOn sep (c # cs) =
     (if c = sep then [] # splitOn sep cs
      else (case splitOn sep cs of
              x # xs \<Rightarrow> (c # x) # xs
            | [] \<Rightarrow> [[c]]))"

fun joinWith :: "jsstring \<Rightarrow> jsstring list \<Rightarrow> jsstring" where
  "joinWith sep [] = []"
| "joinWith sep [x] = x"
| "joinWith sep (x # y # ys) = x @ sep @ joinWith sep (y # ys)"

fun normalizeSegments :: "bool \<Rightarrow> jsstring list \<Rightarrow> jsstring list \<Rightarrow> jsstring list" where
  "normalizeSegments allowAboveRoot res [] = res"
| "normalizeSegments allowAboveRoot res (seg # segs) =
     (if seg = [] \<or> seg = js ''.'' then normalizeSegments allowAboveRoot res segs
      else if seg = js ''..'' then
        (if res \<noteq> [] \<and> last res \<noteq> js ''..''
           then normalizeSegments allowAboveRoot (butlast res) segs
         else if allowAboveRoot
           then normalizeSegments allowAboveRoot (res @ [js ''..'']) segs
         else normalizeSegments allowAboveRoot res segs)
      else normalizeSegments allowAboveRoot (res @ [seg]) segs)"

definition pathNormalize :: "jsstring \<Rightarrow> jsstring" where
  "pathNormalize p =
     (if p = [] then js ''.''
      else
        (let isAbsolute = (hd p = 47);
             trailingSeparator = (last p = 47);
             res = joinWith (js ''/'') (normalizeSegments (\<not> isAbsolute) [] (splitOn 47 p))
         in if res = [] then
              (if isAbsolute then js ''/'' else if trailingSeparator then js ''./'' else js ''.'')
            else (if isAbsolute then js ''/'' else []) @ res
                 @ (if trailingSeparator then js ''/'' else [])))"

definition pathBasename :: "jsstring \<Rightarrow> jsstring" where
  "pathBasename p =
     (case filter (\<lambda>seg. seg \<noteq> []) (splitOn 47 p) of
        [] \<Rightarrow> []
      | segs \<Rightarrow> last segs)"

definition toLowerAscii :: "cu \<Rightarrow> cu" where
  "toLowerAscii c = (if 65 \<le> c \<and> c \<le> 90 then c + 32 else c)"

definition pathExtname :: "jsstring \<Rightarrow> jsstring" where
  "pathExtname p =
     (let b = pathBasename p; parts = splitOn 46 b
      in if length parts < 2 \<or> b = js ''..'' \<or> (length parts = 2 \<and> hd parts = [])
         then []
         else 46 # last parts)"

text \<open>\<open>s.includes(p)\<close>: \<open>p\<close> occurs in \<open>s\<close> as a contiguous run of code units.\<close>

fun includesStr :: "jsstring \<Rightarrow> jsstring \<Rightarrow> bool" where
  "includesStr [] p = (p = [])"
| "includesStr (c # cs) p = (startsWith (c # cs) p \<or> includesStr cs p)"

text \<open>
  \<open>.replace(/^(\.\.(\/|\\|$))+/, '')\<close>: leading \<open>../\<close> and \<open>..\\<close> are cut off, and a
  \<open>..\<close> that ends the string with them.
\<close>

fun stripLeadingDotDots :: "jsstring \<Rightarrow> jsstring" where
  "stripLeadingDotDots (a # b # c # rest) =
     (if a = 46 \<and> b = 46 \<and> (c = 47 \<or> c = 92) then stripLeadingDotDots rest
      else a # b # c # rest)"
| "stripLeadingDotDots [a, b] = (if a = 46 \<and> b = 46 then [] else [a, b])"
| "stripLeadingDotDots s = s"

type_synonym bytes = "8 word list"

text \<open>
  The file system as the handler sees it: which paths exist, what \<open>stat\<close> says
  (\<open>None\<close>: it throws), and what \<open>readFile\<close> returns (\<open>None\<close>: it throws).
\<close>

record fileSystem =
  existsSync :: "jsstring \<Rightarrow> bool"
  statIsFile :: "jsstring \<Rightarrow> bool option"
  readFile :: "jsstring \<Rightarrow> bytes option"

datatype downloadBody = JsonError string | FileData bytes

record downloadResponse =
  status :: nat
  contentType :: string
  contentDisposition :: "jsstring option"
  body :: downloadBody

definition emptyMp3Buffer :: bytes where
  "emptyMp3Buffer = [0xFF, 0xFB, 0x90, 0x44, 0x00, 0x00, 0x00, 0x00,
                     0x00, 0x00, 0x00, 0x00, 0x00, 0x00, 0x00, 0x00]"

definition jsonError :: "nat \<Rightarrow> string \<Rightarrow> downloadResponse" where
  "jsonError st msg =
     \<lparr>status = st, contentType = ''application/json'', contentDisposition = None,
      body = JsonError msg\<rparr>"

definition attachment :: "jsstring \<Rightarrow> jsstring" where
  "attachment fileName = js ''attachment; filename=\"'' @ fileName @ js ''\"''"

definition contentTypeOf :: "jsstring \<Rightarrow> string" where
  "contentTypeOf extension =
     (if extension = js ''.mp3'' then ''audio/mpeg''
      else if extension = js ''.wav'' then ''audio/wav''
      else if extension = js ''.txt'' then ''text/plain''
      else if extension = js ''.json'' then ''application/json''
      else ''application/octet-stream'')"

text \<open>\<open>requestedFilename || path.basename(p)\<close>\<close>

definition filenameOr :: "jsstring option \<Rightarrow> jsstring \<Rightarrow> jsstring" where
  "filenameOr requestedFilename p =
     (case requestedFilename of
        None \<Rightarrow> pathBasename p
      | Some f \<Rightarrow> if f = [] then pathBasename p else f)"

definition alternativePathOf :: "jsstring \<Rightarrow> jsstring option" where
  "alternativePathOf normalizedPath =
     (let fileName = pathBasename normalizedPath;
          possibleYouTubeId = hd (splitOn 46 fileName)
      in if possibleYouTubeId \<noteq> [] \<and> length possibleYouTubeId > 8
            \<and> length possibleYouTubeId < 20
         then Some (js ''/tmp/video_transcriptions/'' @ possibleYouTubeId @ js ''.mp3'')
         else None)"

definition GET_download ::
  "fileSystem \<Rightarrow> jsstring option \<Rightarrow> jsstring option \<Rightarrow> downloadResponse" where
  "GET_download fs filePath requestedFilename =
     (case filePath of
        None \<Rightarrow> jsonError 400 ''File path is required''
      | Some fp \<Rightarrow>
          if fp = [] then jsonError 400 ''File path is required''
          else
            (let normalizedPath = stripLeadingDotDots (pathNormalize fp)
             in if includesStr normalizedPath (js ''..'') then jsonError 400 ''Invalid file path''
                else if \<not> existsSync fs normalizedPath then
                  (case (case alternativePathOf normalizedPath of
                           None \<Rightarrow> None
                         | Some alt \<Rightarrow> if existsSync fs alt then Some alt else None) of
                     Some alt \<Rightarrow>
                       (case readFile fs alt of
                          None \<Rightarrow> jsonError 500 ''Error downloading file''
                        | Some fileData \<Rightarrow>
                            \<lparr>status = 200, contentType = ''audio/mpeg'',
                             contentDisposition =
                               Some (attachment (filenameOr requestedFilename alt)),
                             body = FileData fileData\<rparr>)
                   | None \<Rightarrow>
                       \<lparr>status = 200, contentType = ''audio/mpeg'',
                        contentDisposition = Some (attachment (js ''empty_audio.mp3'')),
                        body = FileData emptyMp3Buffer\<rparr>)
                else
                  (case statIsFile fs normalizedPath of
                     None \<Rightarrow> jsonError 500 ''Error downloading file''
                   | Some isFile \<Rightarrow>
                       if \<not> isFile then jsonError 400 ''Path is not a file''
                       else
                         (case readFile fs normalizedPath of
                            None \<Rightarrow> jsonError 500 ''Error downloading file''
                          | Some fileData \<Rightarrow>
                              \<lparr>status = 200,
                               contentType =
                                 contentTypeOf (map toLowerAscii (pathExtname normalizedPath)),
                               contentDisposition =
                                 Some (attachment (filenameOr requestedFilename normalizedPath)),
                               body = FileData fileData\<rparr>))))"

text \<open>An empty disk, for the examples.\<close>

definition emptyDisk :: fileSystem where
  "emptyDisk = \<lparr>existsSync = (\<lambda>p. False), statIsFile = (\<lambda>p. None), readFile = (\<lambda>p. None)\<rparr>"

definition noAlternative :: "fileSystem \<Rightarrow> jsstring \<Rightarrow> bool" where
  "noAlternative fs normalizedPath =
     (case alternativePathOf normalizedPath of
        None \<Rightarrow> True
      | Some alt \<Rightarrow> \<not> existsSync fs alt)"


section \<open>Cleanup route (src/unnamed/part_002)\<close>

text \<open>
  A directory entry as the handler meets it: its name, what \<open>stat\<close> reports (kind, size,
  modification time in milliseconds), the reading of \<open>Date.now()\<close> taken when its age is
  computed, and whether \<open>stat\<close> or \<open>unlink\<close> throws for it. \<open>unlink\<close> always throws for a
  directory.
\<close>

record dirEntry =
  fileName :: jsstring
  isDirectory :: bool
  fileSize :: nat
  mtimeMs :: int
  nowAtCheck :: int
  statThrows :: bool
  unlinkThrows :: bool

datatype directory = Missing | Unreadable | Listing "dirEntry list"

record cleanupResult =
  deletedFiles :: nat
  freedSpace :: nat

datatype cleanupResponse =
    MissingRequestId400
  | CleanupServerError500
  | CleanupDone cleanupResult

record cleanupEnv =
  cleanupBody :: "jsstring option option"
  videoTempDir :: directory
  appTempDir :: directory

definition endsWith :: "jsstring \<Rightarrow> jsstring \<Rightarrow> bool" where
  "endsWith s suffix \<longleftrightarrow>
     length suffix \<le> length s \<and> drop (length s - length suffix) s = suffix"

definition mediaExtensions :: "jsstring list" where
  "mediaExtensions = map js [''.mp3'', ''.mp4'', ''.wav'', ''.webm'', ''.m4a'', ''.ogg'',
                             ''.flac'', ''.txt'', ''.vtt'', ''.srt'', ''.json'']"

definition isTemporaryMediaFile :: "jsstring \<Rightarrow> bool" where
  "isTemporaryMediaFile filename \<longleftrightarrow> (\<exists>ext \<in> set mediaExtensions. endsWith filename ext)"

definition unlinkSucceeds :: "dirEntry \<Rightarrow> bool" where
  "unlinkSucceeds f \<longleftrightarrow> \<not> isDirectory f \<and> \<not> unlinkThrows f"

text \<open>First loop body: is this entry of the video temp directory deleted and counted?\<close>

definition videoFileDeleted :: "jsstring \<Rightarrow> dirEntry \<Rightarrow> bool" where
  "videoFileDeleted rid f \<longleftrightarrow>
     (includesStr (fileName f) rid \<or> isTemporaryMediaFile (fileName f))
     \<and> \<not> statThrows f \<and> \<not> isDirectory f \<and> unlinkSucceeds f"

definition fileAge :: "dirEntry \<Rightarrow> int" where
  "fileAge f = nowAtCheck f - mtimeMs f"

text \<open>Second loop body: is this entry of the app temp directory deleted and counted?\<close>

definition appFileDeleted :: "dirEntry \<Rightarrow> bool" where
  "appFileDeleted f \<longleftrightarrow>
     \<not> statThrows f \<and> fileAge f > 60 * 60 * 1000 \<and> unlinkSucceeds f"

text \<open>
  Either \<open>for\<close> loop: the entries are visited in order; a deleted file adds one to
  \<open>deletedFiles\<close> and its size to \<open>freedSpace\<close>, every other entry stays on disk.
\<close>

fun sweep ::
  "(dirEntry \<Rightarrow> bool) \<Rightarrow> dirEntry list \<Rightarrow> cleanupResult \<Rightarrow> cleanupResult \<times> dirEntry list" where
  "sweep deleted [] result = (result, [])"
| "sweep deleted (f # files) result =
     (if deleted f then
        sweep deleted files
          (result\<lparr>deletedFiles := deletedFiles result + 1,
                  freedSpace := freedSpace result + fileSize f\<rparr>)
      else (case sweep deleted files result of
              (result', kept) \<Rightarrow> (result', f # kept)))"

definition sweepDirectory ::
  "(dirEntry \<Rightarrow> bool) \<Rightarrow> directory \<Rightarrow> cleanupResult \<Rightarrow> cleanupResult \<times> directory" where
  "sweepDirectory deleted dir result =
     (case dir of
        Listing files \<Rightarrow>
          (case sweep deleted files result of (result', kept) \<Rightarrow> (result', Listing kept))
      | other \<Rightarrow> (result, other))"

text \<open>
  The handler: the response with the two directories as it leaves them. When the video
  temp directory does not exist it answers at once, before the app temp directory is
  looked at.
\<close>

definition POST_cleanup :: "cleanupEnv \<Rightarrow> cleanupResponse \<times> directory \<times> directory" where
  "POST_cleanup env =
     (case cleanupBody env of
        None \<Rightarrow> (CleanupServerError500, videoTempDir env, appTempDir env)
      | Some ridOpt \<Rightarrow>
          (case ridOpt of
             None \<Rightarrow> (MissingRequestId400, videoTempDir env, appTempDir env)
           | Some rid \<Rightarrow>
               if rid = [] then (MissingRequestId400, videoTempDir env, appTempDir env)
               else
                 (let result = \<lparr>deletedFiles = 0, freedSpace = 0\<rparr>
                  in if videoTempDir env = Missing
                     then (CleanupDone result, videoTempDir env, appTempDir env)
                     else
                       (case sweepDirectory (videoFileDeleted rid) (videoTempDir env) result of
                          (result1, video') \<Rightarrow>
                            (case sweepDirectory appFileDeleted (appTempDir env) result1 of
                               (result2, app') \<Rightarrow> (CleanupDone result2, video', app'))))))"

definition freshSong :: dirEntry where
  "freshSong = \<lparr>fileName = js ''other.mp3'', isDirectory = False, fileSize = 700,
                 mtimeMs = 1700000000000, nowAtCheck = 1700000060000,
                 statThrows = False, unlinkThrows = False\<rparr>"

definition ownClip :: dirEntry where
  "ownClip = \<lparr>fileName = js ''clip_1700000000123.part'', isDirectory = False, fileSize = 50,
               mtimeMs = 1700000000000, nowAtCheck = 1700000060000,
               statThrows = False, unlinkThrows = False\<rparr>"

definition staleNote :: dirEntry where
  "staleNote = \<lparr>fileName = js ''note.tmp'', isDirectory = False, fileSize = 9,
                 mtimeMs = 1700000000000, nowAtCheck = 1700003600001,
                 statThrows = False, unlinkThrows = False\<rparr>"

definition freshNote :: dirEntry where
  "freshNote = \<lparr>fileName = js ''draft.tmp'', isDirectory = False, fileSize = 4,
                 mtimeMs = 1700000000000, nowAtCheck = 1700003600000,
                 statThrows = False, unlinkThrows = False\<rparr>"

definition freshSongEnv :: cleanupEnv where
  "freshSongEnv = \<lparr>cleanupBody = Some (Some (js ''1700000000123'')),
                    videoTempDir = Listing [freshSong], appTempDir = Listing []\<rparr>"

definition mixedEnv :: cleanupEnv where
  "mixedEnv = \<lparr>cleanupBody = Some (Some (js ''1700000000123'')),
                videoTempDir = Listing [ownClip], appTempDir = Listing [staleNote, freshNote]\<rparr>"


section \<open>Remote-provider translation route (src/app/api/model/improve/route.ts, second file)\<close>

text \<open>The class \<open>\s\<close> of an ECMAScript regular expression, on code units.\<close>

definition isWhiteSpace :: "cu \<Rightarrow> bool" where
  "isWhiteSpace c \<longleftrightarrow>
     (9 \<le> c \<and> c \<le> 13) \<or> c = 32 \<or> c = 0xA0 \<or> c = 0x1680
     \<or> (0x2000 \<le> c \<and> c \<le> 0x200A) \<or> c = 0x2028 \<or> c = 0x2029 \<or> c = 0x202F
     \<or> c = 0x205F \<or> c = 0x3000 \<or> c = 0xFEFF"

definition isSentenceEnd :: "cu \<Rightarrow> bool" where
  "isSentenceEnd c \<longleftrightarrow> c = 46 \<or> c = 33 \<or> c = 63"

definition isClauseEnd :: "cu \<Rightarrow> bool" where
  "isClauseEnd c \<longleftrightarrow> c = 44 \<or> c = 59"

text \<open>
  \<open>s.split(/(?<=[P])\s+/)\<close>: the scan goes left to right with the piece collected since
  the last separator and the code unit before the current position. A separator starts
  at a white-space unit whose predecessor is in \<open>P\<close> and takes the whole white-space run;
  the piece before it is emitted, and the rest of the string is the last piece.
\<close>

function splitAfter ::
  "(cu \<Rightarrow> bool) \<Rightarrow> cu option \<Rightarrow> jsstring \<Rightarrow> jsstring \<Rightarrow> jsstring list" where
  "splitAfter P prev piece [] = [piece]"
| "splitAfter P prev piece (c # cs) =
     (if isWhiteSpace c \<and> (case prev of Some b \<Rightarrow> P b | None \<Rightarrow> False)
      then piece # splitAfter P (Some (last (c # takeWhile isWhiteSpace cs))) []
                     (dropWhile isWhiteSpace cs)
      else splitAfter P (Some c) (piece @ [c]) cs)"
  by pat_completeness auto
termination
  by (relation "measure (\<lambda>(P, prev, piece, rest). length rest)")
     (auto simp: length_dropWhile_le less_Suc_eq_le)

text \<open>
  The slicing loop \<open>for (i = 0; i < s.length; i += maxLength) parts.push(s.slice(i, i +
  maxLength))\<close>, on the part of the string from \<open>i\<close> on. With \<open>maxLength = 0\<close> the index
  never moves and the loop does not end: \<open>None\<close>.
\<close>

function fixedSlices :: "nat \<Rightarrow> jsstring \<Rightarrow> jsstring list option" where
  "fixedSlices maxLength s =
     (if s = [] then Some []
      else if maxLength = 0 then None
      else map_option (\<lambda>slices. take maxLength s # slices)
             (fixedSlices maxLength (drop maxLength s)))"
  by pat_completeness auto
termination
  by (relation "measure (\<lambda>(maxLength, s). length s)") auto

declare fixedSlices.simps [simp del]

text \<open>\<open>if (part) parts.push(part)\<close>\<close>

definition pushIfNonEmpty :: "jsstring list \<Rightarrow> jsstring \<Rightarrow> jsstring list" where
  "pushIfNonEmpty parts part = (if part \<noteq> [] then parts @ [part] else parts)"

text \<open>\<open>part += (part ? ' ' : '') + piece\<close>\<close>

definition appendWithSpace :: "jsstring \<Rightarrow> jsstring \<Rightarrow> jsstring" where
  "appendWithSpace part piece = part @ (if part \<noteq> [] then js '' '' else []) @ piece"

text \<open>The inner loop over the clauses of an over-long sentence; state \<open>(parts, subPart)\<close>.\<close>

fun subSentenceLoop ::
  "nat \<Rightarrow> jsstring list \<Rightarrow> jsstring list \<times> jsstring \<Rightarrow> (jsstring list \<times> jsstring) option" where
  "subSentenceLoop maxLength [] st = Some st"
| "subSentenceLoop maxLength (subSentence # rest) (parts, subPart) =
     (if length subSentence > maxLength then
        (case fixedSlices maxLength subSentence of
           None \<Rightarrow> None
         | Some slices \<Rightarrow>
             subSentenceLoop maxLength rest (pushIfNonEmpty parts subPart @ slices, []))
      else if length subPart + length subSentence + 1 > maxLength then
        subSentenceLoop maxLength rest (parts @ [subPart], subSentence)
      else subSentenceLoop maxLength rest (parts, appendWithSpace subPart subSentence))"

text \<open>The outer loop over the sentences; state \<open>(parts, currentPart)\<close>.\<close>

fun sentenceLoop ::
  "nat \<Rightarrow> jsstring list \<Rightarrow> jsstring list \<times> jsstring \<Rightarrow> (jsstring list \<times> jsstring) option" where
  "sentenceLoop maxLength [] st = Some st"
| "sentenceLoop maxLength (sentence # rest) (parts, currentPart) =
     (if length sentence > maxLength then
        (case subSentenceLoop maxLength (splitAfter isClauseEnd None [] sentence)
                (pushIfNonEmpty parts currentPart, []) of
           None \<Rightarrow> None
         | Some (parts', subPart) \<Rightarrow>
             sentenceLoop maxLength rest (pushIfNonEmpty parts' subPart, []))
      else if length currentPart + length sentence + 1 > maxLength then
        sentenceLoop maxLength rest (parts @ [currentPart], sentence)
      else sentenceLoop maxLength rest (parts, appendWithSpace currentPart sentence))"

definition splitText :: "jsstring \<Rightarrow> nat \<Rightarrow> jsstring list option" where
  "splitText txt maxLength =
     (if length txt \<le> maxLength then Some [txt]
      else (case sentenceLoop maxLength (splitAfter isSentenceEnd None [] txt) ([], []) of
              None \<Rightarrow> None
            | Some (parts, currentPart) \<Rightarrow> Some (pushIfNonEmpty parts currentPart)))"

text \<open>
  The words of a text: its maximal runs of code units that are not white space.
\<close>

fun splitWhere :: "(cu \<Rightarrow> bool) \<Rightarrow> jsstring \<Rightarrow> jsstring list" where
  "splitWhere P [] = [[]]"
| "splitWhere P (c # cs) =
     (if P c then [] # splitWhere P cs
      else (case splitWhere P cs of
              x # xs \<Rightarrow> (c # x) # xs
            | [] \<Rightarrow> [[c]]))"

definition wordsOf :: "jsstring \<Rightarrow> jsstring list" where
  "wordsOf s = filter (\<lambda>w. w \<noteq> []) (splitWhere isWhiteSpace s)"

text \<open>
  No fixed-length slicing is needed: the text is within the limit, or every clause of
  every over-long sentence is.
\<close>

definition noSlicingNeeded :: "jsstring \<Rightarrow> nat \<Rightarrow> bool" where
  "noSlicingNeeded txt maxLength \<longleftrightarrow>
     length txt \<le> maxLength \<or>
     (\<forall>sentence \<in> set (splitAfter isSentenceEnd None [] txt).
        length sentence > maxLength \<longrightarrow>
        (\<forall>subSentence \<in> set (splitAfter isClauseEnd None [] sentence).
           length subSentence \<le> maxLength))"

definition MAX_CHUNK_SIZE :: nat where
  "MAX_CHUNK_SIZE = 5000"

text \<open>
  The two translation endpoints are outside the program: \<open>officialAPI i chunk\<close> and
  \<open>alternativeAPI i chunk\<close> are what the call made for the \<open>i\<close>-th chunk returns, \<open>None\<close>
  when it throws (network error, bad status, malformed answer); an answer is given as
  \<open>Array.prototype.join\<close> renders it. The loop records the calls it makes.
\<close>

datatype apiCall = OfficialCall nat | AlternativeCall nat

record googleEnv =
  officialAPI :: "nat \<Rightarrow> jsstring \<Rightarrow> jsstring option"
  alternativeAPI :: "nat \<Rightarrow> jsstring \<Rightarrow> jsstring option"
  addHebrewPunctuation :: "jsstring \<Rightarrow> jsstring"

fun translateChunks ::
  "googleEnv \<Rightarrow> nat \<Rightarrow> jsstring list \<Rightarrow> jsstring list \<times> apiCall list" where
  "translateChunks env i [] = ([], [])"
| "translateChunks env i (chunk # rest) =
     (case translateChunks env (i + 1) rest of
        (translatedRest, callsRest) \<Rightarrow>
          (case officialAPI env i chunk of
             Some translatedText \<Rightarrow> (translatedText # translatedRest, OfficialCall i # callsRest)
           | None \<Rightarrow>
               (case alternativeAPI env i chunk of
                  Some translatedText \<Rightarrow>
                    (translatedText # translatedRest,
                     OfficialCall i # AlternativeCall i # callsRest)
                | None \<Rightarrow>
                    (chunk # translatedRest,
                     OfficialCall i # AlternativeCall i # callsRest))))"

text \<open>\<open>p.trim()\<close> is non-empty: some code unit of \<open>p\<close> is neither white space nor a line end.\<close>

definition hasVisibleText :: "jsstring \<Rightarrow> bool" where
  "hasVisibleText p \<longleftrightarrow> (\<exists>c \<in> set p. \<not> isWhiteSpace c)"

definition setTextDirection :: "jsstring \<Rightarrow> jsstring \<Rightarrow> jsstring \<times> string" where
  "setTextDirection txt targetLang =
     (if targetLang = js ''he'' \<or> targetLang = js ''ar'' then
        (joinWith [10]
           (map (\<lambda>p. if hasVisibleText p then 0x200F # p else p) (splitOn 10 txt)),
         ''rtl'')
      else (txt, ''ltr''))"

record googleResult =
  translatedChunks :: "jsstring list"
  mergedTranslation :: jsstring
  translation :: jsstring
  direction :: string
  apiCalls :: "apiCall list"

text \<open>
  \<open>translateWithGoogle\<close>; \<open>None\<close> stands for the function not returning a result. The
  record keeps the loop's list and the merged text beside the returned pair.
\<close>

definition translateWithGoogle ::
  "googleEnv \<Rightarrow> jsstring \<Rightarrow> jsstring \<Rightarrow> jsstring \<Rightarrow> googleResult option" where
  "translateWithGoogle env txt sourceLang targetLang =
     (case splitText txt MAX_CHUNK_SIZE of
        None \<Rightarrow> None
      | Some chunks \<Rightarrow>
          (case translateChunks env 0 chunks of
             (translated, calls) \<Rightarrow>
               (let merged = joinWith (js '' '') translated;
                    punctuated = (if targetLang = js ''he''
                                  then addHebrewPunctuation env merged else merged);
                    formatted = setTextDirection punctuated targetLang
                in Some \<lparr>translatedChunks = translated, mergedTranslation = merged,
                         translation = fst formatted, direction = snd formatted,
                         apiCalls = calls\<rparr>)))"


text \<open>Shorthand for the statements about the chunker.\<close>

abbreviation (input) bounded :: "nat \<Rightarrow> jsstring list \<Rightarrow> bool" where
  "bounded maxLength parts \<equiv> (\<forall>p \<in> set parts. length p \<le> maxLength)"

abbreviation (input) wordsOfParts :: "jsstring list \<Rightarrow> jsstring list" where
  "wordsOfParts parts \<equiv> concat (map wordsOf parts)"

abbreviation (input) clausesFit :: "nat \<Rightarrow> jsstring list \<Rightarrow> bool" where
  "clausesFit maxLength sentences \<equiv>
     (\<forall>sentence \<in> set sentences.
        length sentence > maxLength \<longrightarrow>
        (\<forall>subSentence \<in> set (splitAfter isClauseEnd None [] sentence).
           length subSentence \<le> maxLength))"

definition bothFail :: googleEnv where
  "bothFail = \<lparr>officialAPI = (\<lambda>i chunk. None), alternativeAPI = (\<lambda>i chunk. None),
                addHebrewPunctuation = (\<lambda>t. t)\<rparr>"


section \<open>Transcription route (src/unnamed/part_001): language detector\<close>

text \<open>
  The patterns are \<open>/\bWORD\b/i\<close> without the \<open>u\<close> flag. \<open>\b\<close> holds between two
  positions of which exactly one carries a word character \<open>[A-Za-z0-9_]\<close>; the ends of
  the text count as carrying none. Under \<open>i\<close> two code units match when their canonical
  (simple upper-case) forms agree; \<open>canonicalize\<close> gives that form for every code unit
  whose form is shared with a unit of one of the patterns, and leaves the others alone,
  which decides every comparison against a pattern as the engine does.
\<close>

definition isWordChar :: "cu \<Rightarrow> bool" where
  "isWordChar c \<longleftrightarrow>
     (48 \<le> c \<and> c \<le> 57) \<or> (65 \<le> c \<and> c \<le> 90) \<or> c = 95 \<or> (97 \<le> c \<and> c \<le> 122)"

definition canonicalize :: "cu \<Rightarrow> cu" where
  "canonicalize c =
     (if 97 \<le> c \<and> c \<le> 122 then c - 32
      else if c = 0xFC then 0xDC
      else if 0x430 \<le> c \<and> c \<le> 0x44F then c - 0x20
      else if c = 0x1C80 then 0x412
      else if c = 0x1C82 then 0x41E
      else if c = 0x1C83 then 0x421
      else if c = 0x1C84 \<or> c = 0x1C85 then 0x422
      else c)"

definition headOption :: "'a list \<Rightarrow> 'a option" where
  "headOption xs = (case xs of [] \<Rightarrow> None | x # _ \<Rightarrow> Some x)"

definition carriesWordChar :: "cu option \<Rightarrow> bool" where
  "carriesWordChar u = (case u of None \<Rightarrow> False | Some c \<Rightarrow> isWordChar c)"

definition atWordBoundary :: "cu option \<Rightarrow> cu option \<Rightarrow> bool" where
  "atWordBoundary unitBefore unitAfter \<longleftrightarrow>
     carriesWordChar unitBefore \<noteq> carriesWordChar unitAfter"

text \<open>
  \<open>/\bw\b/i\<close> matches at the current position: \<open>prev\<close> is the unit before it, \<open>rest\<close> the
  text from it on. Every word of the table is non-empty.
\<close>

definition wordMatchesHere :: "jsstring \<Rightarrow> cu option \<Rightarrow> jsstring \<Rightarrow> bool" where
  "wordMatchesHere w prev rest \<longleftrightarrow>
     length w \<le> length rest
     \<and> map canonicalize (take (length w) rest) = map canonicalize w
     \<and> atWordBoundary prev (headOption rest)
     \<and> atWordBoundary (headOption (rev (take (length w) rest)))
                       (headOption (drop (length w) rest))"

fun wordOccurs :: "jsstring \<Rightarrow> cu option \<Rightarrow> jsstring \<Rightarrow> bool" where
  "wordOccurs w prev [] = wordMatchesHere w prev []"
| "wordOccurs w prev (c # cs) =
     (wordMatchesHere w prev (c # cs) \<or> wordOccurs w (Some c) cs)"

text \<open>
  \<open>(text.match(pattern) || []).length\<close>: the patterns are not global and have no group,
  so the match array holds the one matched text.
\<close>

definition matchCount :: "jsstring \<Rightarrow> jsstring \<Rightarrow> nat" where
  "matchCount txt w = (if wordOccurs w None txt then 1 else 0)"

definition languagePatterns :: "(jsstring \<times> jsstring list) list" where
  "languagePatterns =
     [(js ''en'', map js [''the'', ''and'', ''to'', ''for'', ''with'', ''it'']),
      (js ''es'', map js [''el'', ''la'', ''los'', ''las'', ''y'', ''para'', ''por'']),
      (js ''fr'', map js [''le'', ''la'', ''les'', ''et'', ''pour'', ''avec'', ''une'']),
      (js ''de'', [js ''der'', js ''die'', js ''das'', js ''und'', [0x66, 0xFC, 0x72],
                   js ''mit'']),
      (js ''it'', map js [''il'', ''la'', ''i'', ''le'', ''e'', ''per'', ''con'']),
      (js ''ru'', [[0x438], [0x432], [0x43D, 0x430], [0x441], [0x43F, 0x43E],
                   [0x43E, 0x442]]),
      (js ''ar'', [[0x641, 0x64A], [0x645, 0x646], [0x625, 0x644, 0x649],
                   [0x639, 0x644, 0x649], [0x648], [0x623, 0x646]])]"

text \<open>The first loop: \<open>scores[lang]\<close> for each language, in the order of the table.\<close>

definition scores :: "jsstring \<Rightarrow> (jsstring \<times> nat) list" where
  "scores txt =
     map (\<lambda>(lang, patterns). (lang, foldl (\<lambda>score w. score + matchCount txt w) 0 patterns))
         languagePatterns"

text \<open>The second loop, with \<open>(detectedLang, maxScore)\<close> as its state.\<close>

fun pickLanguage :: "(jsstring \<times> nat) list \<Rightarrow> jsstring \<times> nat \<Rightarrow> jsstring \<times> nat" where
  "pickLanguage [] best = best"
| "pickLanguage ((lang, score) # rest) (detectedLang, maxScore) =
     (if score > maxScore then pickLanguage rest (lang, score)
      else pickLanguage rest (detectedLang, maxScore))"

definition detectLanguage :: "jsstring \<Rightarrow> jsstring" where
  "detectLanguage txt = fst (pickLanguage (scores txt) (js ''en'', 0))"


section \<open>Transcription route (src/unnamed/part_001): identifier resolver\<close>

text \<open>
  The clock and the random source are outside the program: \<open>idNow\<close> is the reading of
  \<open>Date.now()\<close> and \<open>idRandom\<close> the text of
  \<open>Math.random().toString(36).substring(2, 7)\<close> for the call at hand.
\<close>

record idEnv =
  idNow :: nat
  idRandom :: jsstring

definition isLineTerminator :: "cu \<Rightarrow> bool" where
  "isLineTerminator c \<longleftrightarrow> c = 10 \<or> c = 13 \<or> c = 0x2028 \<or> c = 0x2029"

text \<open>
  The first group of
  \<open>/^.*(youtu.be\/|v\/|e\/|u\/\w+\/|embed\/|v=)([^#\&\?]*).*/\<close>
  tried at the head of \<open>s\<close>: the text after the group when an alternative matches. The dot
  of \<open>youtu.be\<close> is unescaped and stands for any unit but a line terminator.
\<close>

definition ytGroup1 :: "jsstring \<Rightarrow> jsstring option" where
  "ytGroup1 s =
     (if startsWith s (js ''youtu'') \<and> take 3 (drop 6 s) = js ''be/''
         \<and> \<not> isLineTerminator (s ! 5)
      then Some (drop 9 s)
      else if startsWith s (js ''v/'') then Some (drop 2 s)
      else if startsWith s (js ''e/'') then Some (drop 2 s)
      else if startsWith s (js ''u/'') \<and> takeWhile isWordChar (drop 2 s) \<noteq> []
              \<and> take 1 (dropWhile isWordChar (drop 2 s)) = js ''/''
      then Some (drop 1 (dropWhile isWordChar (drop 2 s)))
      else if startsWith s (js ''embed/'') then Some (drop 6 s)
      else if startsWith s (js ''v='') then Some (drop 2 s)
      else None)"

text \<open>
  The greedy \<open>^.*\<close> takes the first line and gives units back one at a time, so the group
  is matched at the rightmost place of the first line where an alternative fits.
\<close>

fun ytLastGroup1 :: "jsstring \<Rightarrow> jsstring option" where
  "ytLastGroup1 [] = ytGroup1 []"
| "ytLastGroup1 (c # cs) =
     (if isLineTerminator c then ytGroup1 (c # cs)
      else (case ytLastGroup1 cs of
              Some r \<Rightarrow> Some r
            | None \<Rightarrow> ytGroup1 (c # cs)))"

text \<open>\<open>match[2]\<close>: the longest run without \<open>#\<close>, \<open>&\<close> and \<open>?\<close> after the first group.\<close>

definition ytGroup2 :: "jsstring \<Rightarrow> jsstring option" where
  "ytGroup2 url =
     map_option (takeWhile (\<lambda>c. c \<noteq> 35 \<and> c \<noteq> 38 \<and> c \<noteq> 63)) (ytLastGroup1 url)"

text \<open>
  \<open>extractYouTubeVideoId\<close>. \<open>None\<close> is a null or undefined URL. The \<open>catch\<close> branch of the
  source is not reached for a string, \<open>String.prototype.match\<close> does not throw.
\<close>

definition extractYouTubeVideoId :: "idEnv \<Rightarrow> jsstring option \<Rightarrow> jsstring" where
  "extractYouTubeVideoId env url =
     (case url of
        None \<Rightarrow> js ''youtube-'' @ showNat (idNow env)
      | Some u \<Rightarrow>
          if u = [] then js ''youtube-'' @ showNat (idNow env)
          else
            (case ytGroup2 u of
               Some g2 \<Rightarrow>
                 if length g2 = 11 then g2
                 else js ''youtube-'' @ showNat (idNow env) @ js ''-'' @ idRandom env
             | None \<Rightarrow> js ''youtube-'' @ showNat (idNow env) @ js ''-'' @ idRandom env))"

text \<open>An unanchored expression is tried at every position from the left.\<close>

fun searchFirst :: "(jsstring \<Rightarrow> 'a option) \<Rightarrow> jsstring \<Rightarrow> 'a option" where
  "searchFirst matchHere [] = matchHere []"
| "searchFirst matchHere (c # cs) =
     (case matchHere (c # cs) of
        Some r \<Rightarrow> Some r
      | None \<Rightarrow> searchFirst matchHere cs)"

text \<open>A literal followed by the group \<open>(\d+)\<close>.\<close>

definition digitsAfter :: "jsstring \<Rightarrow> jsstring \<Rightarrow> jsstring option" where
  "digitsAfter literal s =
     (if startsWith s literal \<and> takeWhile isDigit (drop (length literal) s) \<noteq> []
      then Some (takeWhile isDigit (drop (length literal) s))
      else None)"

text \<open>The lazy \<open>.*?\/videos\/(\d+)\<close>: the nearest place on the line where it fits.\<close>

fun lazyVideos :: "jsstring \<Rightarrow> jsstring option" where
  "lazyVideos [] = digitsAfter (js ''/videos/'') []"
| "lazyVideos (c # cs) =
     (case digitsAfter (js ''/videos/'') (c # cs) of
        Some d \<Rightarrow> Some d
      | None \<Rightarrow> if isLineTerminator c then None else lazyVideos cs)"

text \<open>
  \<open>/facebook\.com\/(?:watch\/\?v=|.*?\/videos\/|video\.php\?v=|watch\?v=)(\d+)/\<close>
\<close>

definition facebookHere :: "jsstring \<Rightarrow> jsstring option" where
  "facebookHere s =
     (if startsWith s (js ''facebook.com/'') then
        (let r = drop 13 s
         in case digitsAfter (js ''watch/?v='') r of
              Some d \<Rightarrow> Some d
            | None \<Rightarrow>
                (case lazyVideos r of
                   Some d \<Rightarrow> Some d
                 | None \<Rightarrow>
                     (case digitsAfter (js ''video.php?v='') r of
                        Some d \<Rightarrow> Some d
                      | None \<Rightarrow> digitsAfter (js ''watch?v='') r)))
      else None)"

text \<open>\<open>/tiktok\.com\/@[\w.-]+\/video\/(\d+)/\<close>\<close>

definition isAccountChar :: "cu \<Rightarrow> bool" where
  "isAccountChar c \<longleftrightarrow> isWordChar c \<or> c = 46 \<or> c = 45"

definition tiktokHere :: "jsstring \<Rightarrow> jsstring option" where
  "tiktokHere s =
     (if startsWith s (js ''tiktok.com/@'') \<and> takeWhile isAccountChar (drop 12 s) \<noteq> []
      then digitsAfter (js ''/video/'') (dropWhile isAccountChar (drop 12 s))
      else None)"

text \<open>\<open>/instagram\.com\/(?:p|reel)\/([A-Za-z0-9_-]+)/\<close>\<close>

definition isSlugChar :: "cu \<Rightarrow> bool" where
  "isSlugChar c \<longleftrightarrow> isWordChar c \<or> c = 45"

definition instagramHere :: "jsstring \<Rightarrow> jsstring option" where
  "instagramHere s =
     (if startsWith s (js ''instagram.com/'') then
        (let r = drop 14 s;
             slugText = (if startsWith r (js ''p/'') then Some (drop 2 r)
                         else if startsWith r (js ''reel/'') then Some (drop 5 r)
                         else None)
         in case slugText of
              None \<Rightarrow> None
            | Some t \<Rightarrow> if takeWhile isSlugChar t \<noteq> [] then Some (takeWhile isSlugChar t)
                        else None)
      else None)"

text \<open>\<open>/vimeo\.com\/(\d+)/\<close>\<close>

definition vimeoHere :: "jsstring \<Rightarrow> jsstring option" where
  "vimeoHere s = digitsAfter (js ''vimeo.com/'') s"

text \<open>
  \<open>Buffer.from(url).toString('base64')\<close>: the UTF-8 bytes of the string (a surrogate
  pair is one code point, a lone surrogate becomes U+FFFD), then base64 with padding.
  Bytes and character codes are natural numbers here.
\<close>

definition isHighSurrogate :: "cu \<Rightarrow> bool" where
  "isHighSurrogate c \<longleftrightarrow> 0xD800 \<le> unat c \<and> unat c \<le> 0xDBFF"

definition isLowSurrogate :: "cu \<Rightarrow> bool" where
  "isLowSurrogate c \<longleftrightarrow> 0xDC00 \<le> unat c \<and> unat c \<le> 0xDFFF"

definition utf8OfCodePoint :: "nat \<Rightarrow> nat list" where
  "utf8OfCodePoint cp =
     (if cp < 0x80 then [cp]
      else if cp < 0x800 then [0xC0 + cp div 64, 0x80 + cp mod 64]
      else if cp < 0x10000 then
        [0xE0 + cp div 4096, 0x80 + (cp div 64) mod 64, 0x80 + cp mod 64]
      else [0xF0 + cp div 262144, 0x80 + (cp div 4096) mod 64, 0x80 + (cp div 64) mod 64,
            0x80 + cp mod 64])"

fun utf8Encode :: "jsstring \<Rightarrow> nat list" where
  "utf8Encode [] = []"
| "utf8Encode [c] =
     (if isHighSurrogate c \<or> isLowSurrogate c then [0xEF, 0xBF, 0xBD]
      else utf8OfCodePoint (unat c))"
| "utf8Encode (c # d # rest) =
     (if isHighSurrogate c \<and> isLowSurrogate d then
        utf8OfCodePoint (0x10000 + (unat c - 0xD800) * 1024 + (unat d - 0xDC00))
        @ utf8Encode rest
      else if isHighSurrogate c \<or> isLowSurrogate c then
        [0xEF, 0xBF, 0xBD] @ utf8Encode (d # rest)
      else utf8OfCodePoint (unat c) @ utf8Encode (d # rest))"

text \<open>The base64 alphabet: A-Z, a-z, 0-9, plus and slash.\<close>

definition base64Code :: "nat \<Rightarrow> nat" where
  "base64Code n =
     (if n < 26 then 65 + n
      else if n < 52 then 97 + (n - 26)
      else if n < 62 then 48 + (n - 52)
      else if n = 62 then 43
      else 47)"

fun base64 :: "nat list \<Rightarrow> nat list" where
  "base64 (a # b # c # rest) =
     [base64Code (a div 4), base64Code ((a mod 4) * 16 + b div 16),
      base64Code ((b mod 16) * 4 + c div 64), base64Code (c mod 64)] @ base64 rest"
| "base64 [a, b] =
     [base64Code (a div 4), base64Code ((a mod 4) * 16 + b div 16),
      base64Code ((b mod 16) * 4), 61]"
| "base64 [a] = [base64Code (a div 4), base64Code ((a mod 4) * 16), 61, 61]"
| "base64 [] = []"

definition isAlnumCode :: "nat \<Rightarrow> bool" where
  "isAlnumCode n \<longleftrightarrow> (48 \<le> n \<and> n \<le> 57) \<or> (65 \<le> n \<and> n \<le> 90) \<or> (97 \<le> n \<and> n \<le> 122)"

text \<open>
  \<open>Buffer.from(url).toString('base64').replace(/[^a-zA-Z0-9]/g, '').substring(0, 16)\<close>
\<close>

definition otherPlatformId :: "jsstring \<Rightarrow> jsstring" where
  "otherPlatformId url =
     take 16 (map of_nat (filter isAlnumCode (base64 (utf8Encode url))))"

text \<open>\<open>extractVideoId\<close>; \<open>None\<close> is \<open>null\<close>, for the URL and for the result.\<close>

definition extractVideoId :: "idEnv \<Rightarrow> jsstring option \<Rightarrow> jsstring \<Rightarrow> jsstring option" where
  "extractVideoId env url platform =
     (case url of
        None \<Rightarrow> None
      | Some u \<Rightarrow>
          if u = [] then None
          else if platform = js ''youtube'' then Some (extractYouTubeVideoId env (Some u))
          else if platform = js ''facebook'' then searchFirst facebookHere u
          else if platform = js ''tiktok'' then searchFirst tiktokHere u
          else if platform = js ''instagram'' then searchFirst instagramHere u
          else if platform = js ''vimeo'' then searchFirst vimeoHere u
          else if platform = js ''other'' then Some (otherPlatformId u)
          else None)"

definition supportedPlatforms :: "jsstring list" where
  "supportedPlatforms =
     map js [''youtube'', ''facebook'', ''tiktok'', ''instagram'', ''vimeo'', ''other'']"

text \<open>The platform's pattern finds an id in the URL.\<close>

definition patternMatches :: "jsstring \<Rightarrow> jsstring \<Rightarrow> bool" where
  "patternMatches url platform \<longleftrightarrow>
     (if platform = js ''youtube''
      then (case ytGroup2 url of Some g2 \<Rightarrow> length g2 = 11 | None \<Rightarrow> False)
      else if platform = js ''facebook'' then searchFirst facebookHere url \<noteq> None
      else if platform = js ''tiktok'' then searchFirst tiktokHere url \<noteq> None
      else if platform = js ''instagram'' then searchFirst instagramHere url \<noteq> None
      else if platform = js ''vimeo'' then searchFirst vimeoHere url \<noteq> None
      else False)"

definition morningEnv :: idEnv where
  "morningEnv = \<lparr>idNow = 1700000000000, idRandom = js ''k3x9q''\<rparr>"

definition eveningEnv :: idEnv where
  "eveningEnv = \<lparr>idNow = 1700000050000, idRandom = js ''0ab7z''\<rparr>"


section \<open>Transcription route (src/unnamed/part_001): progress, cache and POST handler\<close>

text \<open>
  The process-wide state of the route: the result cache (a \<open>Map\<close> from the cache key to
  the stored result and its time stamp), the progress object (request id to progress
  entry) and the global \<open>tempVideoId\<close>.
\<close>

record progressEntry =
  entryProgress :: nat
  entryStep :: string
  entryTitle :: "jsstring option"
  entryVideoId :: "jsstring option"
  entryUrl :: "jsstring option"
  entryError :: "jsstring option"

definition progressOf :: "nat \<Rightarrow> string \<Rightarrow> progressEntry" where
  "progressOf percent label =
     \<lparr>entryProgress = percent, entryStep = label, entryTitle = None, entryVideoId = None,
      entryUrl = None, entryError = None\<rparr>"

text \<open>A value of a result field: a string, or a member inherited from \<open>Object.prototype\<close>.\<close>

datatype jsval = JString jsstring | JInheritedMember

record transcriptionData =
  dataSuccess :: bool
  dataTranscript :: jsstring
  dataTranslation :: jsval
  dataDetectedLanguage :: jsstring
  dataTitle :: jsstring
  dataAudioPath :: "jsstring option"

record serverState =
  transcriptionCache :: "jsstring \<rightharpoonup> transcriptionData \<times> nat"
  transcriptionProgress :: "jsstring \<rightharpoonup> progressEntry"
  tempVideoId :: "jsstring option"

definition CACHE_DURATION :: int where
  "CACHE_DURATION = 24 * 60 * 60 * 1000"

subsection \<open>updateProgress\<close>

text \<open>
  \<open>parseInt(id)\<close>: leading white space is skipped, a sign is read, a \<open>0x\<close> prefix selects
  radix 16, and the longest run of digits is the value; \<open>None\<close> is \<open>NaN\<close>.
\<close>

definition hexDigitVal :: "cu \<Rightarrow> nat option" where
  "hexDigitVal c =
     (if 48 \<le> c \<and> c \<le> 57 then Some (unat c - 48)
      else if 97 \<le> c \<and> c \<le> 102 then Some (unat c - 87)
      else if 65 \<le> c \<and> c \<le> 70 then Some (unat c - 55)
      else None)"

definition parseDigits :: "nat \<Rightarrow> jsstring \<Rightarrow> nat option" where
  "parseDigits radix s =
     (let ds = takeWhile (\<lambda>c. case hexDigitVal c of Some v \<Rightarrow> v < radix | None \<Rightarrow> False) s
      in if ds = [] then None
         else Some (foldl (\<lambda>acc c. radix * acc
                                    + (case hexDigitVal c of Some v \<Rightarrow> v | None \<Rightarrow> 0))
                      0 ds))"

definition parseIntJS :: "jsstring \<Rightarrow> int option" where
  "parseIntJS s =
     (let t = dropWhile isWhiteSpace s;
          negative = (take 1 t = js ''-'');
          u = (if take 1 t = js ''-'' \<or> take 1 t = js ''+'' then drop 1 t else t);
          magnitude = (if take 2 u = js ''0x'' \<or> take 2 u = js ''0X''
                       then parseDigits 16 (drop 2 u) else parseDigits 10 u)
      in map_option (\<lambda>n. if negative then - int n else int n) magnitude)"

record progressData =
  newTitle :: "jsstring option"
  newVideoId :: "jsstring option"
  newUrl :: "jsstring option"
  newError :: "jsstring option"

definition orElse :: "'a option \<Rightarrow> 'a option \<Rightarrow> 'a option" where
  "orElse a b = (case a of Some v \<Rightarrow> Some v | None \<Rightarrow> b)"

text \<open>
  \<open>{...transcriptionProgress[requestId], progress, step, ...data}\<close>: the old entry's
  fields, then the two arguments, then the fields of \<open>data\<close>.
\<close>

definition mergeEntry ::
  "progressEntry option \<Rightarrow> nat \<Rightarrow> string \<Rightarrow> progressData option \<Rightarrow> progressEntry" where
  "mergeEntry old percent label extra =
     (let base = (case old of
                    None \<Rightarrow> progressOf percent label
                  | Some e \<Rightarrow> e\<lparr>entryProgress := percent, entryStep := label\<rparr>)
      in case extra of
           None \<Rightarrow> base
         | Some d \<Rightarrow>
             base\<lparr>entryTitle := orElse (newTitle d) (entryTitle base),
                  entryVideoId := orElse (newVideoId d) (entryVideoId base),
                  entryUrl := orElse (newUrl d) (entryUrl base),
                  entryError := orElse (newError d) (entryError base)\<rparr>)"

definition isStale :: "nat \<Rightarrow> jsstring \<Rightarrow> bool" where
  "isStale now requestKey \<longleftrightarrow>
     (case parseIntJS requestKey of
        None \<Rightarrow> False
      | Some t \<Rightarrow> t < int now - 24 * 60 * 60 * 1000)"

text \<open>
  \<open>updateProgress\<close>: the entry is written, then every key whose \<open>parseInt\<close> is more than
  a day before \<open>Date.now()\<close> is deleted.
\<close>

definition updateProgress ::
  "nat \<Rightarrow> jsstring \<Rightarrow> nat \<Rightarrow> string \<Rightarrow> progressData option
     \<Rightarrow> (jsstring \<rightharpoonup> progressEntry) \<Rightarrow> (jsstring \<rightharpoonup> progressEntry)" where
  "updateProgress now requestKey percent label extra tp =
     (let written = setProp tp requestKey (mergeEntry (tp requestKey) percent label extra)
      in (\<lambda>k. if isStale now k then None else written k))"

subsection \<open>Known videos and fallback responses\<close>

definition knownTranscript :: jsstring where
  "knownTranscript =
     js ''This is an example transcript of a known video.''"

definition knownTranslation_he :: jsstring where
  "knownTranslation_he =
     [1494, 1493, 1492, 1497, 32, 1491, 1493, 1490, 1502, 1492, 32, 1500, 1514, 1502, 1500,
      1493, 1500, 32, 1513, 1500, 32, 1505, 1512, 1496, 1493, 1503, 32, 1497, 1491, 1493,
      1506, 46]"

definition knownTranslation_ar :: jsstring where
  "knownTranslation_ar =
     [1607, 1584, 1575, 32, 1605, 1579, 1575, 1604, 32, 1593, 1604, 1609, 32, 1575, 1604,
      1606, 1589, 32, 1575, 1604, 1605, 1603, 1578, 1608, 1576, 32, 1604, 1601, 1610,
      1583, 1610, 1608, 32, 1605, 1593, 1585, 1608, 1601, 46]"

definition knownTranslation_ru :: jsstring where
  "knownTranslation_ru =
     [1069, 1090, 1086, 32, 1087, 1088, 1080, 1084, 1077, 1088, 32, 1090, 1088, 1072, 1085,
      1089, 1082, 1088, 1080, 1087, 1094, 1080, 1080, 32, 1080, 1079, 1074, 1077, 1089,
      1090, 1085, 1086, 1075, 1086, 32, 1074, 1080, 1076, 1077, 1086, 46]"

definition knownTranslation_es :: jsstring where
  "knownTranslation_es =
     js ''Este es un ejemplo de transcripci'' @
     [243] @
     js ''n de un video conocido.''"

definition knownTranslation_fr :: jsstring where
  "knownTranslation_fr =
     js ''Voici un exemple de transcription d'' @
     [39] @
     js ''une vid'' @
     [233] @
     js ''o connue.''"

definition knownTranslation_de :: jsstring where
  "knownTranslation_de =
     js ''Dies ist ein Beispiel f'' @
     [252] @
     js ''r die Transkription eines bekannten Videos.''"

definition fallbackTranscript :: jsstring where
  "fallbackTranscript =
     js ''The way to get started is to quit talking and begin doing. Walt Disney'' @
     [10, 10] @
     js ''Success is not final, failure is not fatal: It is the courage to '' @
     js ''continue that counts. Winston Churchill'' @
     [10, 10] @
     js ''The future belongs to those who believe in the beauty of their '' @
     js ''dreams. Eleanor Roosevelt'' @
     [10, 10] @
     js ''Life is what happens when you'' @
     [39] @
     js ''re busy making other plans. John Lennon''"

definition fallbackHebrew :: jsstring where
  "fallbackHebrew =
     [1492, 1491, 1512, 1498, 32, 1500, 1492, 1514, 1495, 1497, 1500, 32, 1492, 1497, 1488,
      32, 1500, 1492, 1508, 1505, 1497, 1511, 32, 1500, 1491, 1489, 1512, 32, 1493, 1500,
      1492, 1514, 1495, 1497, 1500, 32, 1500, 1506, 1513, 1493, 1514, 46, 32, 1493, 1493,
      1500, 1496, 32, 1491, 1497, 1505, 1504, 1497, 10, 10, 1492, 1492, 1510, 1500, 1495,
      1492, 32, 1488, 1497, 1504, 1492, 32, 1505, 1493, 1508, 1497, 1514, 44, 32, 1492,
      1499, 1497, 1513, 1500, 1493, 1503, 32, 1488, 1497, 1504, 1493, 32, 1511, 1496,
      1500, 1504, 1497, 58, 32, 1494, 1493, 32, 1492, 1488, 1493, 1502, 1509, 32, 1500,
      1492, 1502, 1513, 1497, 1498, 32, 1513, 1504, 1495, 1513, 1489, 46, 32, 1493, 1497,
      1504, 1505, 1496, 1493, 1503, 32, 1510, 39, 1512, 1510, 39, 1497, 1500, 10, 10,
      1492, 1506, 1514, 1497, 1491, 32, 1513, 1497, 1497, 1498, 32, 1500, 1488, 1500,
      1492, 32, 1492, 1502, 1488, 1502, 1497, 1504, 1497, 1501, 32, 1489, 1497, 1493,
      1508, 1497, 32, 1513, 1500, 32, 1495, 1500, 1493, 1502, 1493, 1514, 1497, 1492,
      1501, 46, 32, 1488, 1500, 1497, 1504, 1493, 1512, 32, 1512, 1493, 1494, 1493, 1493,
      1500, 1496, 10, 10, 1492, 1495, 1497, 1497, 1501, 32, 1492, 1501, 32, 1502, 1492,
      32, 1513, 1511, 1493, 1512, 1492, 32, 1499, 1513, 1488, 1514, 1492, 32, 1506, 1505,
      1493, 1511, 32, 1489, 1506, 1513, 1497, 1497, 1514, 32, 1514, 1493, 1499, 1504,
      1497, 1493, 1514, 32, 1488, 1495, 1512, 1493, 1514, 46, 32, 1490, 39, 1493, 1503,
      32, 1500, 1504, 1493, 1503]"

definition placeholderHebrew :: jsstring where
  "placeholderHebrew =
     [1500, 1488, 32, 1504, 1497, 1514, 1503, 32, 1500, 1514, 1512, 1490, 1501, 32, 1488,
      1514, 32, 1492, 1496, 1511, 1505, 1496, 32, 1499, 1506, 1514, 46, 32, 1504, 1488,
      32, 1500, 1504, 1505, 1493, 1514, 32, 1513, 1493, 1489, 32, 1502, 1488, 1493, 1495,
      1512, 32, 1497, 1493, 1514, 1512, 46]"

definition placeholderArabic :: jsstring where
  "placeholderArabic =
     [1604, 1575, 32, 1610, 1605, 1603, 1606, 32, 1578, 1585, 1580, 1605, 1577, 32, 1575,
      1604, 1606, 1589, 32, 1581, 1575, 1604, 1610, 1611, 1575, 46, 32, 1575, 1604, 1585,
      1580, 1575, 1569, 32, 1575, 1604, 1605, 1581, 1575, 1608, 1604, 1577, 32, 1605,
      1585, 1577, 32, 1571, 1582, 1585, 1609, 32, 1604, 1575, 1581, 1602, 1611, 1575, 46]"

definition placeholderEnglish :: jsstring where
  "placeholderEnglish =
     js ''Unable to translate text at this time. Please try again later.''"

record knownVideo =
  knownVideoTranscript :: jsstring
  knownVideoTranslations :: "jsstring \<rightharpoonup> jsstring"

definition exampleTranslations :: "jsstring \<rightharpoonup> jsstring" where
  "exampleTranslations =
     [js ''he'' \<mapsto> knownTranslation_he, js ''ar'' \<mapsto> knownTranslation_ar,
      js ''ru'' \<mapsto> knownTranslation_ru, js ''es'' \<mapsto> knownTranslation_es,
      js ''fr'' \<mapsto> knownTranslation_fr, js ''de'' \<mapsto> knownTranslation_de]"

definition knownVideos :: "jsstring \<rightharpoonup> knownVideo" where
  "knownVideos =
     [js ''example123'' \<mapsto>
        \<lparr>knownVideoTranscript = knownTranscript, knownVideoTranslations = exampleTranslations\<rparr>]"

definition fallbackTranslations :: "jsstring \<rightharpoonup> jsstring" where
  "fallbackTranslations = [js ''he'' \<mapsto> fallbackHebrew]"

text \<open>An external call or a step of the handler either throws or returns.\<close>

datatype 'a attempt = Throws jsstring | Returns 'a

text \<open>
  \<open>translateFallback\<close>. Reading \<open>.translations[targetLanguage]\<close> of an inherited member
  of \<open>knownVideos\<close> throws a TypeError; \<open>targetLanguage in translations\<close> holds for the
  own key and for every inherited one.
\<close>

definition translateFallback :: "jsstring option \<Rightarrow> jsstring \<Rightarrow> jsstring \<Rightarrow> jsval attempt" where
  "translateFallback currentVideoId transcript targetLanguage =
     (let fromKnown =
            (case currentVideoId of
               None \<Rightarrow> Returns None
             | Some v \<Rightarrow>
                 if v = [] then Returns None
                 else (case getProp knownVideos v of
                         Undefined \<Rightarrow> Returns None
                       | Inherited \<Rightarrow> Throws (js ''TypeError'')
                       | Own video \<Rightarrow>
                           (case getProp (knownVideoTranslations video) targetLanguage of
                              Own t \<Rightarrow> Returns (if t = [] then None else Some (JString t))
                            | Inherited \<Rightarrow> Returns (Some JInheritedMember)
                            | Undefined \<Rightarrow> Returns None)))
      in case fromKnown of
           Throws e \<Rightarrow> Throws e
         | Returns (Some v) \<Rightarrow> Returns v
         | Returns None \<Rightarrow>
             (case getProp fallbackTranslations targetLanguage of
                Own t \<Rightarrow> Returns (JString t)
              | Inherited \<Rightarrow> Returns JInheritedMember
              | Undefined \<Rightarrow>
                  Returns (JString (if fallbackHebrew \<noteq> [] then fallbackHebrew
                                    else transcript))))"

subsection \<open>The world outside the handler\<close>

datatype tool =
    TitleLookup
  | YtDlpDownload
  | PythonDownloader
  | PythonShellTranscriber
  | DirectTranscriber
  | LocalTranslator
  | GoogleTranslator

record transcriberOutput =
  outSuccess :: bool
  outTranscript :: "jsstring option"
  outLanguage :: "jsstring option"
  outError :: "jsstring option"

record transcribeOptions =
  targetLanguage :: "jsstring option"
  platformType :: "jsstring option"

record transcribeBody =
  bodyUrl :: "jsstring option"
  bodyOptions :: transcribeOptions

text \<open>
  Every reading of the clock, every answer of the file system and every outcome of an
  external tool that one request can meet. A call that can fail is an \<open>attempt\<close>;
  \<open>Returns None\<close> is an output that does not parse to a usable value.
\<close>

record world =
  requestJson :: "transcribeBody option"
  nowAtStart :: nat
  nowAtCacheCheck :: nat
  nowAtStore :: nat
  nowAtUnknownId :: nat
  idEnvOfPost :: idEnv
  idEnvOfProcess :: idEnv
  osTmpdir :: jsstring
  mkdirTempDirFails :: bool
  tempDirExists :: bool
  mkdirSyncFails :: bool
  titleOutput :: "jsstring attempt"
  ytDlpFails :: bool
  pythonScriptPresent :: bool
  pythonDownloaderOutput :: "jsstring option attempt"
  diskHas :: "jsstring \<Rightarrow> bool"
  tempDirListing :: "jsstring list attempt"
  pythonShellResult :: "transcriberOutput option attempt"
  directResult :: "transcriberOutput option attempt"
  nllbAnswer :: "jsstring option"
  googleAnswer :: "jsstring option"

subsection \<open>translateWithLocalAI\<close>

definition placeholderFor :: "jsstring \<Rightarrow> jsstring" where
  "placeholderFor targetLang =
     (if targetLang = js ''he'' then placeholderHebrew
      else if targetLang = js ''ar'' then placeholderArabic
      else placeholderEnglish)"

text \<open>
  The local-model endpoint first, the remote-provider endpoint when it fails, a fixed
  sentence when both fail; the function never rejects.
\<close>

definition translateWithLocalAI :: "world \<Rightarrow> jsstring \<Rightarrow> jsstring \<Rightarrow> jsstring \<times> tool list" where
  "translateWithLocalAI w txt targetLang =
     (case nllbAnswer w of
        Some t \<Rightarrow> (t, [LocalTranslator])
      | None \<Rightarrow>
          (case googleAnswer w of
             Some t \<Rightarrow> (t, [LocalTranslator, GoogleTranslator])
           | None \<Rightarrow> (placeholderFor targetLang, [LocalTranslator, GoogleTranslator])))"

subsection \<open>processYouTubeVideo\<close>

definition trim :: "jsstring \<Rightarrow> jsstring" where
  "trim s = rev (dropWhile isWhiteSpace (rev (dropWhile isWhiteSpace s)))"

text \<open>\<open>path.join\<close> of two segments.\<close>

definition pathJoin :: "jsstring \<Rightarrow> jsstring \<Rightarrow> jsstring" where
  "pathJoin a b =
     (if a = [] then pathNormalize b
      else if b = [] then pathNormalize a
      else pathNormalize (a @ js ''/'' @ b))"

definition possibleExtensions :: "jsstring list" where
  "possibleExtensions = map js [''.mp3'', ''.m4a'', ''.wav'', ''.opus'']"

record processResult =
  resultSuccess :: bool
  resultTranscript :: "jsstring option"
  resultTitle :: "jsstring option"
  resultLanguage :: "jsstring option"
  resultError :: "jsstring option"
  resultAudioPath :: jsstring

definition failedResult :: "jsstring \<Rightarrow> jsstring \<Rightarrow> processResult" where
  "failedResult message audioFilePath =
     \<lparr>resultSuccess = False, resultTranscript = None, resultTitle = None,
      resultLanguage = None, resultError = Some message, resultAudioPath = audioFilePath\<rparr>"

text \<open>\<open>getTitleAsync\<close> catches the failure of its command itself.\<close>

definition getTitleAsync :: "world \<Rightarrow> jsstring" where
  "getTitleAsync w =
     (case titleOutput w of
        Throws e \<Rightarrow> js ''YouTube Video''
      | Returns stdout \<Rightarrow> trim stdout)"

text \<open>
  The download step: the path the Python downloader reports (if it is reached and
  reports one) and the tools that ran.
\<close>

definition downloadStep :: "world \<Rightarrow> jsstring \<Rightarrow> jsstring \<times> tool list" where
  "downloadStep w audioFilePath =
     (if \<not> ytDlpFails w then (audioFilePath, [YtDlpDownload])
      else if \<not> pythonScriptPresent w then (audioFilePath, [YtDlpDownload])
      else (case pythonDownloaderOutput w of
              Returns (Some reported) \<Rightarrow> (reported, [YtDlpDownload, PythonDownloader])
            | Returns None \<Rightarrow> (audioFilePath, [YtDlpDownload, PythonDownloader])
            | Throws e \<Rightarrow> (audioFilePath, [YtDlpDownload, PythonDownloader])))"

text \<open>The transcription step: the transcriber's parsed output, if any, and the tools.\<close>

definition transcribeStep :: "world \<Rightarrow> transcriberOutput option \<times> tool list" where
  "transcribeStep w =
     (case pythonShellResult w of
        Returns r \<Rightarrow> (r, [PythonShellTranscriber])
      | Throws e \<Rightarrow>
          (case directResult w of
             Returns r \<Rightarrow> (r, [PythonShellTranscriber, DirectTranscriber])
           | Throws e' \<Rightarrow> (None, [PythonShellTranscriber, DirectTranscriber])))"

text \<open>\<open>a || b\<close> on an optional string: the string when it is there and not empty.\<close>

definition orDefault :: "jsstring option \<Rightarrow> jsstring \<Rightarrow> jsstring" where
  "orDefault a b = (case a of None \<Rightarrow> b | Some v \<Rightarrow> if v = [] then b else v)"

text \<open>
  The second half of \<open>processYouTubeVideo\<close>, once an audio file is found: the
  transcription and the result.
\<close>

definition processAudio ::
  "world \<Rightarrow> jsstring \<Rightarrow> jsstring \<Rightarrow> jsstring \<Rightarrow> (jsstring \<rightharpoonup> progressEntry) \<Rightarrow> tool list
     \<Rightarrow> (processResult \<times> (jsstring \<rightharpoonup> progressEntry) \<times> tool list) attempt" where
  "processAudio w title audioFilePath requestKey tp log =
     (let tp2 = setProp tp requestKey (progressOf 40 ''Transcribing audio'');
          transcribed = transcribeStep w;
          log2 = log @ snd transcribed
      in case fst transcribed of
           None \<Rightarrow> Returns (failedResult (js ''Transcription failed'') audioFilePath, tp2, log2)
         | Some out \<Rightarrow>
             if outSuccess out \<and> orDefault (outTranscript out) [] \<noteq> [] then
               Returns (\<lparr>resultSuccess = True,
                         resultTranscript = outTranscript out,
                         resultTitle = Some title,
                         resultLanguage = Some (orDefault (outLanguage out) (js ''en'')),
                         resultError = None,
                         resultAudioPath = audioFilePath\<rparr>,
                        setProp tp2 requestKey (progressOf 80 ''Finalizing transcript''),
                        log2)
             else
               Returns (failedResult (orDefault (outError out) (js ''Transcription failed''))
                          audioFilePath,
                        tp2, log2))"

definition processYouTubeVideo ::
  "world \<Rightarrow> jsstring \<Rightarrow> jsstring \<Rightarrow> jsstring \<Rightarrow> (jsstring \<rightharpoonup> progressEntry)
     \<Rightarrow> (processResult \<times> (jsstring \<rightharpoonup> progressEntry) \<times> tool list) attempt" where
  "processYouTubeVideo w url tempDir requestKey tp =
     (let videoId = orDefault (extractVideoId (idEnvOfProcess w) (Some url) (js ''youtube''))
                      (js ''unknown_'' @ showNat (nowAtUnknownId w))
      in if \<not> tempDirExists w \<and> mkdirSyncFails w then Throws (js ''mkdirSync failed'')
         else
           (let audioPathBase = pathJoin tempDir videoId;
                title = orDefault (Some (getTitleAsync w)) (js ''Video '' @ videoId);
                tp1 = setProp tp requestKey (progressOf 10 ''Downloading YouTube audio'');
                downloaded = downloadStep w (audioPathBase @ js ''.mp3'');
                log1 = TitleLookup # snd downloaded
            in case filter (\<lambda>ext. diskHas w (audioPathBase @ ext)) possibleExtensions of
                 ext # _ \<Rightarrow>
                   processAudio w title (audioPathBase @ ext) requestKey tp1 log1
               | [] \<Rightarrow>
                   (case tempDirListing w of
                      Throws e \<Rightarrow>
                        Returns (failedResult e (fst downloaded),
                                 (if requestKey \<noteq> [] then
                                    setProp tp1 requestKey
                                      ((progressOf 0 ''Failed'')\<lparr>entryError := Some e\<rparr>)
                                  else tp1),
                                 log1)
                    | Returns files \<Rightarrow>
                        (case filter (\<lambda>file. includesStr file videoId
                                        \<and> (\<exists>ext \<in> set possibleExtensions. endsWith file ext))
                                files of
                           file # _ \<Rightarrow>
                             processAudio w title (pathJoin tempDir file) requestKey tp1 log1
                         | [] \<Rightarrow>
                             Returns (failedResult (js ''Failed to download audio file'')
                                        (fst downloaded),
                                      tp1, log1)))))"


subsection \<open>POST\<close>

datatype transcribeResponse =
    UrlRequired400
  | NoRequestId400
  | Ok200 transcriptionData
  | ServerError500 jsstring

definition cacheKeyOf :: "jsstring \<Rightarrow> transcribeOptions \<Rightarrow> jsstring" where
  "cacheKeyOf url options = url @ js ''_'' @ orDefault (targetLanguage options) (js ''he'')"

text \<open>
  \<open>cachedResult && (Date.now() - cachedResult.timestamp) < CACHE_DURATION\<close>: the cached
  data when the test holds.
\<close>

definition freshCached :: "world \<Rightarrow> serverState \<Rightarrow> jsstring \<Rightarrow> transcriptionData option" where
  "freshCached w st cacheKey =
     (case transcriptionCache st cacheKey of
        None \<Rightarrow> None
      | Some (cachedData, timestamp) \<Rightarrow>
          if int (nowAtCacheCheck w) - int timestamp < CACHE_DURATION then Some cachedData
          else None)"

definition setProgress :: "serverState \<Rightarrow> jsstring \<Rightarrow> nat \<Rightarrow> string \<Rightarrow> serverState" where
  "setProgress st requestKey percent label =
     st\<lparr>transcriptionProgress :=
          setProp (transcriptionProgress st) requestKey (progressOf percent label)\<rparr>"

definition storeInCache ::
  "serverState \<Rightarrow> jsstring \<Rightarrow> transcriptionData \<Rightarrow> nat \<Rightarrow> serverState" where
  "storeInCache st cacheKey result now =
     st\<lparr>transcriptionCache := (transcriptionCache st)(cacheKey \<mapsto> (result, now))\<rparr>"

definition tempDirOf :: "world \<Rightarrow> jsstring" where
  "tempDirOf w = pathJoin (osTmpdir w) (js ''video_transcriptions'')"

text \<open>The end of the handler after a successful extraction (source lines 577 to 614).\<close>

definition finishSuccess ::
  "world \<Rightarrow> serverState \<Rightarrow> transcribeOptions \<Rightarrow> jsstring \<Rightarrow> jsstring \<Rightarrow> processResult
     \<Rightarrow> tool list \<Rightarrow> transcribeResponse \<times> serverState \<times> tool list" where
  "finishSuccess w st options requestKey cacheKey res log =
     (let st1 = setProgress st requestKey 70 ''Detecting language'';
          transcript = orDefault (resultTranscript res) [];
          detectedLanguage =
            (case resultLanguage res of
               None \<Rightarrow> detectLanguage transcript
             | Some l \<Rightarrow> if l = [] then detectLanguage transcript else l);
          wanted = orDefault (targetLanguage options) [];
          translating = (wanted \<noteq> [] \<and> wanted \<noteq> detectedLanguage);
          st2 = (if translating then setProgress st1 requestKey 80 ''Translating content''
                 else st1);
          translated = (if translating \<and> transcript \<noteq> []
                        then translateWithLocalAI w transcript wanted else ([], []));
          st3 = setProgress st2 requestKey 100 ''Process completed'';
          result = \<lparr>dataSuccess = True, dataTranscript = transcript,
                    dataTranslation = JString (fst translated),
                    dataDetectedLanguage = detectedLanguage,
                    dataTitle = orDefault (resultTitle res) (js ''Video Transcription''),
                    dataAudioPath = None\<rparr>
      in (Ok200 result, storeInCache st3 cacheKey result (nowAtStore w), log @ snd translated))"

text \<open>The fallback answer after a failed extraction (source lines 557 to 575).\<close>

definition finishFallback ::
  "serverState \<Rightarrow> transcribeOptions \<Rightarrow> jsstring \<Rightarrow> processResult \<Rightarrow> tool list
     \<Rightarrow> transcribeResponse \<times> serverState \<times> tool list" where
  "finishFallback st options requestKey res log =
     (let st1 = setProgress st requestKey 100 ''Completed with fallback''
      in case translateFallback (tempVideoId st1) fallbackTranscript
                (orDefault (targetLanguage options) (js ''he'')) of
           Throws e \<Rightarrow> (ServerError500 e, st1, log)
         | Returns translated \<Rightarrow>
             (Ok200 \<lparr>dataSuccess = True, dataTranscript = fallbackTranscript,
                     dataTranslation = translated, dataDetectedLanguage = js ''en'',
                     dataTitle = js ''Could not extract video content - using fallback'',
                     dataAudioPath = Some (resultAudioPath res)\<rparr>,
              st1, log))"

text \<open>The handler past the cache check (source lines 502 to 555).\<close>

definition afterCacheMiss ::
  "world \<Rightarrow> serverState \<Rightarrow> transcribeOptions \<Rightarrow> jsstring \<Rightarrow> jsstring \<Rightarrow> jsstring
     \<Rightarrow> transcribeResponse \<times> serverState \<times> tool list" where
  "afterCacheMiss w st options url requestKey cacheKey =
     (let isYouTube = (platformType options = Some (js ''youtube''));
          videoId = (if isYouTube then extractYouTubeVideoId (idEnvOfPost w) (Some url) else []);
          st1 = (if isYouTube then st\<lparr>tempVideoId := Some videoId\<rparr> else st);
          known = (if isYouTube \<and> videoId \<noteq> [] then getProp knownVideos videoId
                   else Undefined)
      in case known of
           Inherited \<Rightarrow> (ServerError500 (js ''TypeError''), st1, [])
         | Own video \<Rightarrow>
             (let translated =
                    (case getProp (knownVideoTranslations video)
                            (orDefault (targetLanguage options) (js ''he'')) of
                       Own t \<Rightarrow> JString t
                     | Inherited \<Rightarrow> JInheritedMember
                     | Undefined \<Rightarrow> JString []);
                  result = \<lparr>dataSuccess = True,
                            dataTranscript = knownVideoTranscript video,
                            dataTranslation = translated,
                            dataDetectedLanguage = js ''en'',
                            dataTitle = js ''Known Video ('' @ videoId @ js '')'',
                            dataAudioPath = None\<rparr>;
                  st2 = storeInCache st1 cacheKey result (nowAtStore w)
              in (Ok200 result, setProgress st2 requestKey 100 ''Retrieved known video'', []))
         | Undefined \<Rightarrow>
             (let st2 = setProgress st1 requestKey 10 ''Starting download process''
              in if mkdirTempDirFails w then (ServerError500 (js ''mkdir failed''), st2, [])
                 else
                   (let st3 = setProgress st2 requestKey 15 ''Extracting content''
                    in if \<not> isYouTube then
                         (ServerError500
                            (js ''Unsupported platform: ''
                             @ (case platformType options of
                                  None \<Rightarrow> js ''undefined''
                                | Some p \<Rightarrow> p)),
                          st3, [])
                       else
                         (case processYouTubeVideo w url (tempDirOf w) requestKey
                                 (transcriptionProgress st3) of
                            Throws e \<Rightarrow> (ServerError500 e, st3, [])
                          | Returns (res, tp, log) \<Rightarrow>
                              (let st4 = st3\<lparr>transcriptionProgress := tp\<rparr>
                               in if \<not> resultSuccess res
                                  then finishFallback st4 options requestKey res log
                                  else finishSuccess w st4 options requestKey cacheKey res
                                         log)))))"

text \<open>
  The POST handler: the response, the state it leaves, and the external tools it ran, in
  order.
\<close>

definition POST_transcribe ::
  "world \<Rightarrow> serverState \<Rightarrow> transcribeResponse \<times> serverState \<times> tool list" where
  "POST_transcribe w st =
     (let requestKey = showNat (nowAtStart w)
      in case requestJson w of
           None \<Rightarrow> (ServerError500 (js ''invalid JSON body''), st, [])
         | Some b \<Rightarrow>
             (case bodyUrl b of
                None \<Rightarrow> (UrlRequired400, st, [])
              | Some url \<Rightarrow>
                  if url = [] then (UrlRequired400, st, [])
                  else if requestKey = [] then (NoRequestId400, st, [])
                  else
                    (let st1 = setProgress st requestKey 1 ''Starting process'';
                         cacheKey = cacheKeyOf url (bodyOptions b)
                     in case freshCached w st1 cacheKey of
                          Some cachedData \<Rightarrow>
                            (Ok200 cachedData,
                             setProgress st1 requestKey 100 ''Retrieved from cache'', [])
                        | None \<Rightarrow>
                            afterCacheMiss w st1 (bodyOptions b) url requestKey cacheKey)))"

text \<open>The cache without its entry for one key.\<close>

definition withoutCached :: "serverState \<Rightarrow> jsstring \<Rightarrow> serverState" where
  "withoutCached st cacheKey =
     st\<lparr>transcriptionCache := (transcriptionCache st)(cacheKey := None)\<rparr>"

text \<open>
  The content extraction of a request fails: \<open>processYouTubeVideo\<close> returns a result
  whose \<open>success\<close> is false.
\<close>

definition extractionFails :: "world \<Rightarrow> jsstring \<Rightarrow> bool" where
  "extractionFails w url \<longleftrightarrow>
     (case processYouTubeVideo w url (tempDirOf w) (showNat (nowAtStart w)) Map.empty of
        Throws e \<Rightarrow> False
      | Returns (res, tp, log) \<Rightarrow> \<not> resultSuccess res)"


subsection \<open>Example requests\<close>

text \<open>
  A world in which the URL is unreachable: the title lookup and the downloader fail, no
  fallback script is installed, and the temp directory stays empty.
\<close>

definition demoUrl :: jsstring where
  "demoUrl = js ''https://youtu.be/dQw4w9WgXcQ''"

definition unreachableWorld :: world where
  "unreachableWorld =
     \<lparr>requestJson =
        Some \<lparr>bodyUrl = Some demoUrl,
              bodyOptions = \<lparr>targetLanguage = Some (js ''he''),
                             platformType = Some (js ''youtube'')\<rparr>\<rparr>,
      nowAtStart = 1700000000000,
      nowAtCacheCheck = 1700000000001,
      nowAtStore = 1700000000900,
      nowAtUnknownId = 1700000000002,
      idEnvOfPost = morningEnv,
      idEnvOfProcess = morningEnv,
      osTmpdir = js ''/tmp'',
      mkdirTempDirFails = False,
      tempDirExists = True,
      mkdirSyncFails = False,
      titleOutput = Throws (js ''network unreachable''),
      ytDlpFails = True,
      pythonScriptPresent = False,
      pythonDownloaderOutput = Throws (js ''not run''),
      diskHas = (\<lambda>p. False),
      tempDirListing = Returns [],
      pythonShellResult = Throws (js ''not run''),
      directResult = Throws (js ''not run''),
      nllbAnswer = None,
      googleAnswer = None\<rparr>"

definition vimeoWorld :: world where
  "vimeoWorld =
     unreachableWorld
       \<lparr>requestJson :=
          Some \<lparr>bodyUrl = Some (js ''https://vimeo.com/76979871''),
                bodyOptions = \<lparr>targetLanguage = Some (js ''he''),
                               platformType = Some (js ''vimeo'')\<rparr>\<rparr>\<rparr>"

definition emptyState :: serverState where
  "emptyState =
     \<lparr>transcriptionCache = Map.empty, transcriptionProgress = Map.empty, tempVideoId = None\<rparr>"

definition cachedDemo :: transcriptionData where
  "cachedDemo =
     \<lparr>dataSuccess = True, dataTranscript = js ''never gonna give you up'',
      dataTranslation = JString (js ''shalom''), dataDetectedLanguage = js ''en'',
      dataTitle = js ''Video Transcription'', dataAudioPath = None\<rparr>"

text \<open>The demo URL cached ten seconds, and a long time, before the request.\<close>

definition recentlyCachedState :: serverState where
  "recentlyCachedState =
     emptyState\<lparr>transcriptionCache :=
                  [demoUrl @ js ''_he'' \<mapsto> (cachedDemo, 1699999990001)]\<rparr>"

definition longAgoCachedState :: serverState where
  "longAgoCachedState =
     emptyState\<lparr>transcriptionCache :=
                  [demoUrl @ js ''_he'' \<mapsto> (cachedDemo, 1600000000000)]\<rparr>"

text \<open>A progress object that still holds the entry of a request made in 1970.\<close>

definition oldProgressState :: serverState where
  "oldProgressState =
     emptyState\<lparr>transcriptionProgress :=
                  [js ''1000'' \<mapsto> progressOf 100 ''Process completed'']\<rparr>"


section \<open>Theorems: local-model translation route\<close>

lemma onClose_deletes: "snd (onClose po rid result tp) rid = None"
  by (simp add: onClose_def deleteProp_def Let_def split: parsedOutput.splits)

lemma onClose_terminal: "terminalOutcome (fst (onClose po rid result tp))"
  by (simp add: onClose_def Let_def split: parsedOutput.splits)

lemma runShell_deletes:
  "runShell po rid result tp es = Some (resp, tp') \<Longrightarrow> tp' rid = None"
proof (induction es arbitrary: result tp)
  case Nil
  then show ?case by simp
next
  case (Cons e es)
  show ?case
  proof (cases e)
    case (Stderr s)
    with Cons show ?thesis by simp
  next
    case (Message m)
    with Cons show ?thesis by simp
  next
    case (ShellError d)
    with Cons.prems show ?thesis by (auto simp: deleteProp_def)
  next
    case Close
    with Cons.prems have "tp' = snd (onClose po rid result tp)" by auto
    then show ?thesis by (simp add: onClose_deletes)
  qed
qed

lemma POST_translate_terminal_cases:
  assumes "POST_translate env tp = Some (resp, tp')" and "terminalOutcome resp"
  shows "\<exists>b tp1. bodyJson env = Some b \<and>
           runShell (parseOutcome env) (effectiveRequestId env b) [] tp1 (events env)
             = Some (resp, tp')"
  using assms
  by (auto simp: POST_translate_def Let_def split: option.splits if_splits)

text \<open>
  C10 (amended). Whenever the local-model translation POST resolves with one of the four
  terminal outcomes (shell error, reported failure, parse failure, success), the progress
  object has no entry for the request id at that moment; and when the id is non-empty and
  not the name of a member inherited from \<open>Object.prototype\<close>, the progress GET for it
  answers progress 0.
\<close>

theorem translate_progress_deleted_on_terminal:
  assumes "POST_translate env tp = Some (resp, tp')"
    and "terminalOutcome resp"
    and "bodyJson env = Some b"
  shows "tp' (effectiveRequestId env b) = None \<and>
         (effectiveRequestId env b \<noteq> [] \<and>
          effectiveRequestId env b \<notin> set objectPrototypeKeys \<longrightarrow>
            GET_translate tp' (Some (effectiveRequestId env b)) = Progress200 0)"
proof -
  from POST_translate_terminal_cases [OF assms(1,2)] assms(3)
  obtain tp1 where
    "runShell (parseOutcome env) (effectiveRequestId env b) [] tp1 (events env)
       = Some (resp, tp')"
    by auto
  then have gone: "tp' (effectiveRequestId env b) = None"
    by (rule runShell_deletes)
  then show ?thesis
    by (simp add: GET_translate_def getProp_def)
qed

lemma numberedEnv_run:
  "POST_translate numberedEnv noProgress = Some (Success200 (Some (js ''shalom'')), noProgress)"
  by (simp add: POST_translate_def numberedEnv_def numberedBody_def effectiveRequestId_def
      setProp_def js_def onClose_def deleteProp_def matchProgressAt_def startsWith_def
      isDigit_def Let_def noProgress_def)

theorem translate_progress_deleted_on_terminal_witness:
  "POST_translate numberedEnv noProgress
     = Some (Success200 (Some (js ''shalom'')), noProgress) \<and>
   terminalOutcome (Success200 (Some (js ''shalom''))) \<and>
   bodyJson numberedEnv = Some numberedBody \<and>
   effectiveRequestId numberedEnv numberedBody \<noteq> [] \<and>
   effectiveRequestId numberedEnv numberedBody \<notin> set objectPrototypeKeys \<and>
   GET_translate noProgress (Some (effectiveRequestId numberedEnv numberedBody)) = Progress200 0"
proof -
  have b: "bodyJson numberedEnv = Some numberedBody"
    by (simp add: numberedEnv_def)
  have r: "effectiveRequestId numberedEnv numberedBody = js ''42''"
    by (simp add: effectiveRequestId_def numberedBody_def)
  have k: "js ''42'' \<noteq> [] \<and> js ''42'' \<notin> set objectPrototypeKeys"
    by (simp add: js_def objectPrototypeKeys_def)
  from translate_progress_deleted_on_terminal [OF numberedEnv_run _ b] r k
  show ?thesis
    using numberedEnv_run b by simp
qed

text \<open>
  The claim as stated fails for the empty request id: the POST succeeds and deletes the
  entry, but the GET for the same id answers 400 instead of progress 0.
\<close>

theorem translate_progress_empty_id_counterexample:
  "POST_translate emptyIdEnv noProgress
     = Some (Success200 (Some (js ''shalom'')), noProgress) \<and>
   terminalOutcome (Success200 (Some (js ''shalom''))) \<and>
   effectiveRequestId emptyIdEnv emptyIdBody = [] \<and>
   GET_translate noProgress (Some (effectiveRequestId emptyIdEnv emptyIdBody))
     = RequestIdRequired400"
  by (simp add: POST_translate_def emptyIdEnv_def emptyIdBody_def effectiveRequestId_def
      setProp_def js_def onClose_def deleteProp_def matchProgressAt_def startsWith_def
      isDigit_def Let_def GET_translate_def noProgress_def)

section \<open>Theorems: download route\<close>

text \<open>
  C9 (amended). For every download GET whose \<open>path\<close> parameter is non-empty, whose
  normalised path passes the traversal guard (it holds no \<open>..\<close>), names no existing file,
  and for which no alternative file exists, the response has status 200, content type
  audio/mpeg and the sixteen-byte empty MP3 payload as its body.
\<close>

theorem download_missing_file_empty_mp3:
  assumes "fp \<noteq> []"
    and "\<not> includesStr (stripLeadingDotDots (pathNormalize fp)) (js ''..'')"
    and "\<not> existsSync fs (stripLeadingDotDots (pathNormalize fp))"
    and "noAlternative fs (stripLeadingDotDots (pathNormalize fp))"
  shows "status (GET_download fs (Some fp) requestedFilename) = 200 \<and>
         contentType (GET_download fs (Some fp) requestedFilename) = ''audio/mpeg'' \<and>
         body (GET_download fs (Some fp) requestedFilename) = FileData emptyMp3Buffer"
  using assms
  by (auto simp: GET_download_def noAlternative_def Let_def split: option.splits)

lemma normalize_missing_example:
  "stripLeadingDotDots (pathNormalize (js ''/tmp/a/../missing.mp3'')) = js ''/tmp/missing.mp3''"
  by (simp add: pathNormalize_def js_def Let_def)

theorem download_missing_file_empty_mp3_witness:
  "js ''/tmp/a/../missing.mp3'' \<noteq> [] \<and>
   \<not> includesStr (stripLeadingDotDots (pathNormalize (js ''/tmp/a/../missing.mp3''))) (js ''..'') \<and>
   \<not> existsSync emptyDisk (stripLeadingDotDots (pathNormalize (js ''/tmp/a/../missing.mp3''))) \<and>
   noAlternative emptyDisk (stripLeadingDotDots (pathNormalize (js ''/tmp/a/../missing.mp3''))) \<and>
   status (GET_download emptyDisk (Some (js ''/tmp/a/../missing.mp3'')) None) = 200 \<and>
   contentType (GET_download emptyDisk (Some (js ''/tmp/a/../missing.mp3'')) None) = ''audio/mpeg'' \<and>
   body (GET_download emptyDisk (Some (js ''/tmp/a/../missing.mp3'')) None)
     = FileData emptyMp3Buffer"
proof -
  have h1: "js ''/tmp/a/../missing.mp3'' \<noteq> []"
    by (simp add: js_def)
  have h2: "\<not> includesStr (stripLeadingDotDots (pathNormalize (js ''/tmp/a/../missing.mp3'')))
              (js ''..'')"
    unfolding normalize_missing_example by (simp add: js_def startsWith_def)
  have h3: "\<not> existsSync emptyDisk
              (stripLeadingDotDots (pathNormalize (js ''/tmp/a/../missing.mp3'')))"
    by (simp add: emptyDisk_def)
  have h4: "noAlternative emptyDisk
              (stripLeadingDotDots (pathNormalize (js ''/tmp/a/../missing.mp3'')))"
    by (simp add: noAlternative_def emptyDisk_def split: option.splits)
  from download_missing_file_empty_mp3 [OF h1 h2 h3 h4, of None] h1 h2 h3 h4
  show ?thesis by simp
qed

text \<open>
  The claim as stated fails for a missing file whose name holds two dots in a row: the
  traversal guard answers 400 with a JSON error.
\<close>

theorem download_dotdot_name_counterexample:
  "\<not> existsSync emptyDisk (js ''song..mp3'') \<and>
   noAlternative emptyDisk (stripLeadingDotDots (pathNormalize (js ''song..mp3''))) \<and>
   status (GET_download emptyDisk (Some (js ''song..mp3'')) None) = 400 \<and>
   body (GET_download emptyDisk (Some (js ''song..mp3'')) None) = JsonError ''Invalid file path''"
  by (simp add: GET_download_def pathNormalize_def js_def Let_def startsWith_def
      jsonError_def emptyDisk_def noAlternative_def split: option.splits)

section \<open>Theorems: cleanup route\<close>

lemma sweep_kept: "snd (sweep deleted files result) = filter (\<lambda>f. \<not> deleted f) files"
  by (induction files arbitrary: result) (simp_all add: case_prod_beta)

lemma sweep_deletedFiles:
  "deletedFiles (fst (sweep deleted files result)) + length (snd (sweep deleted files result))
     = deletedFiles result + length files"
  by (induction files arbitrary: result) (simp_all add: case_prod_beta)

lemma sweep_freedSpace:
  "freedSpace (fst (sweep deleted files result))
     + sum_list (map fileSize (snd (sweep deleted files result)))
     = freedSpace result + sum_list (map fileSize files)"
  by (induction files arbitrary: result) (simp_all add: case_prod_beta)

lemma POST_cleanup_listing:
  assumes "cleanupBody env = Some (Some rid)" and "rid \<noteq> []"
    and "videoTempDir env = Listing vs" and "appTempDir env = Listing as"
  shows "POST_cleanup env =
           (CleanupDone
              (fst (sweep appFileDeleted as
                      (fst (sweep (videoFileDeleted rid) vs \<lparr>deletedFiles = 0, freedSpace = 0\<rparr>)))),
            Listing (filter (\<lambda>f. \<not> videoFileDeleted rid f) vs),
            Listing (filter (\<lambda>f. \<not> appFileDeleted f) as))"
proof -
  obtain r1 k1 where s1:
    "sweep (videoFileDeleted rid) vs \<lparr>deletedFiles = 0, freedSpace = 0\<rparr> = (r1, k1)"
    by (cases "sweep (videoFileDeleted rid) vs \<lparr>deletedFiles = 0, freedSpace = 0\<rparr>")
  obtain r2 k2 where s2: "sweep appFileDeleted as r1 = (r2, k2)"
    by (cases "sweep appFileDeleted as r1")
  have k1: "k1 = filter (\<lambda>f. \<not> videoFileDeleted rid f) vs"
    using sweep_kept [of "videoFileDeleted rid" vs "\<lparr>deletedFiles = 0, freedSpace = 0\<rparr>"] s1
    by simp
  have k2: "k2 = filter (\<lambda>f. \<not> appFileDeleted f) as"
    using sweep_kept [of appFileDeleted as r1] s2 by simp
  show ?thesis
    using assms s1 s2 k1 k2
    by (simp add: POST_cleanup_def sweepDirectory_def Let_def)
qed

text \<open>
  C7 (amended). For every cleanup POST with a non-empty requestId that finds both the
  video temp directory and the app temp directory listed: every file of the video temp
  directory whose name contains the requestId or ends in a media extension, and that can
  be inspected and unlinked, is deleted; every file of the video temp directory whose
  name neither contains the requestId nor ends in a media extension is preserved; every
  file of the app temp directory older than one hour that can be inspected and unlinked
  is deleted, whatever its name; every entry of the app temp directory at most one hour
  old is preserved; \<open>deletedFiles\<close> is the number of entries removed and \<open>freedSpace\<close>
  the sum of their sizes.
\<close>

theorem cleanup_deletes_and_counts:
  assumes "cleanupBody env = Some (Some rid)" and "rid \<noteq> []"
    and "videoTempDir env = Listing vs" and "appTempDir env = Listing as"
  shows "\<exists>result video' app'.
           POST_cleanup env = (CleanupDone result, Listing video', Listing app') \<and>
           (\<forall>f \<in> set vs.
              (includesStr (fileName f) rid \<or> isTemporaryMediaFile (fileName f))
              \<and> \<not> statThrows f \<and> unlinkSucceeds f \<longrightarrow> f \<notin> set video') \<and>
           (\<forall>f \<in> set vs.
              \<not> includesStr (fileName f) rid \<and> \<not> isTemporaryMediaFile (fileName f)
              \<longrightarrow> f \<in> set video') \<and>
           (\<forall>f \<in> set as.
              fileAge f > 60 * 60 * 1000 \<and> \<not> statThrows f \<and> unlinkSucceeds f
              \<longrightarrow> f \<notin> set app') \<and>
           (\<forall>f \<in> set as. fileAge f \<le> 60 * 60 * 1000 \<longrightarrow> f \<in> set app') \<and>
           deletedFiles result + length video' + length app' = length vs + length as \<and>
           freedSpace result + sum_list (map fileSize video') + sum_list (map fileSize app')
             = sum_list (map fileSize vs) + sum_list (map fileSize as)"
proof -
  let ?r0 = "\<lparr>deletedFiles = 0, freedSpace = 0\<rparr>"
  let ?s1 = "sweep (videoFileDeleted rid) vs ?r0"
  let ?s2 = "sweep appFileDeleted as (fst ?s1)"
  let ?v = "filter (\<lambda>f. \<not> videoFileDeleted rid f) vs"
  let ?a = "filter (\<lambda>f. \<not> appFileDeleted f) as"
  have run: "POST_cleanup env = (CleanupDone (fst ?s2), Listing ?v, Listing ?a)"
    by (rule POST_cleanup_listing [OF assms])
  have v: "snd ?s1 = ?v" and a: "snd ?s2 = ?a"
    by (rule sweep_kept)+
  have c1: "deletedFiles (fst ?s1) + length ?v = length vs"
    using sweep_deletedFiles [of "videoFileDeleted rid" vs ?r0] v by simp
  have c2: "deletedFiles (fst ?s2) + length ?a = deletedFiles (fst ?s1) + length as"
    using sweep_deletedFiles [of appFileDeleted as "fst ?s1"] a by simp
  have b1: "freedSpace (fst ?s1) + sum_list (map fileSize ?v) = sum_list (map fileSize vs)"
    using sweep_freedSpace [of "videoFileDeleted rid" vs ?r0] v by simp
  have b2: "freedSpace (fst ?s2) + sum_list (map fileSize ?a)
              = freedSpace (fst ?s1) + sum_list (map fileSize as)"
    using sweep_freedSpace [of appFileDeleted as "fst ?s1"] a by simp
  have count: "deletedFiles (fst ?s2) + length ?v + length ?a = length vs + length as"
    using c1 c2 by linarith
  have bytes: "freedSpace (fst ?s2) + sum_list (map fileSize ?v) + sum_list (map fileSize ?a)
                 = sum_list (map fileSize vs) + sum_list (map fileSize as)"
    using b1 b2 by linarith
  have d1: "\<forall>f \<in> set vs.
              (includesStr (fileName f) rid \<or> isTemporaryMediaFile (fileName f))
              \<and> \<not> statThrows f \<and> unlinkSucceeds f \<longrightarrow> f \<notin> set ?v"
    by (auto simp: videoFileDeleted_def unlinkSucceeds_def)
  have p1: "\<forall>f \<in> set vs.
              \<not> includesStr (fileName f) rid \<and> \<not> isTemporaryMediaFile (fileName f)
              \<longrightarrow> f \<in> set ?v"
    by (auto simp: videoFileDeleted_def)
  have d2: "\<forall>f \<in> set as.
              fileAge f > 60 * 60 * 1000 \<and> \<not> statThrows f \<and> unlinkSucceeds f
              \<longrightarrow> f \<notin> set ?a"
    by (auto simp: appFileDeleted_def)
  have p2: "\<forall>f \<in> set as. fileAge f \<le> 60 * 60 * 1000 \<longrightarrow> f \<in> set ?a"
    by (auto simp: appFileDeleted_def)
  from run d1 p1 d2 p2 count bytes show ?thesis by blast
qed

lemma mixedEnv_run:
  "POST_cleanup mixedEnv
     = (CleanupDone \<lparr>deletedFiles = 2, freedSpace = 59\<rparr>, Listing [], Listing [freshNote])"
  by (simp add: POST_cleanup_def mixedEnv_def sweepDirectory_def Let_def videoFileDeleted_def
      appFileDeleted_def ownClip_def staleNote_def freshNote_def fileAge_def
      unlinkSucceeds_def js_def startsWith_def)

theorem cleanup_deletes_and_counts_witness:
  "cleanupBody mixedEnv = Some (Some (js ''1700000000123'')) \<and>
   js ''1700000000123'' \<noteq> [] \<and>
   videoTempDir mixedEnv = Listing [ownClip] \<and>
   appTempDir mixedEnv = Listing [staleNote, freshNote] \<and>
   includesStr (fileName ownClip) (js ''1700000000123'') \<and>
   fileAge staleNote > 60 * 60 * 1000 \<and> fileAge freshNote \<le> 60 * 60 * 1000 \<and>
   (\<exists>result video' app'.
      POST_cleanup mixedEnv = (CleanupDone result, Listing video', Listing app') \<and>
      ownClip \<notin> set video' \<and> staleNote \<notin> set app' \<and> freshNote \<in> set app' \<and>
      deletedFiles result = 2 \<and> freedSpace result = 59)"
proof -
  have h1: "cleanupBody mixedEnv = Some (Some (js ''1700000000123''))"
    and h3: "videoTempDir mixedEnv = Listing [ownClip]"
    and h4: "appTempDir mixedEnv = Listing [staleNote, freshNote]"
    by (simp_all add: mixedEnv_def)
  have h2: "js ''1700000000123'' \<noteq> []"
    by (simp add: js_def)
  have own: "includesStr (fileName ownClip) (js ''1700000000123'')"
    by (simp add: ownClip_def js_def startsWith_def)
  have ages: "fileAge staleNote > 60 * 60 * 1000" "fileAge freshNote \<le> 60 * 60 * 1000"
    by (simp_all add: fileAge_def staleNote_def freshNote_def)
  from cleanup_deletes_and_counts [OF h1 h2 h3 h4]
  obtain result video' app' where
    run: "POST_cleanup mixedEnv = (CleanupDone result, Listing video', Listing app')"
    by blast
  with mixedEnv_run have
    "result = \<lparr>deletedFiles = 2, freedSpace = 59\<rparr>" "video' = []" "app' = [freshNote]"
    by simp_all
  with run h1 h2 h3 h4 own ages show ?thesis
    by (simp add: staleNote_def freshNote_def)
qed

text \<open>
  The claim as stated fails in the video temp directory: a file one minute old whose
  name does not contain the requestId is deleted and counted, because its name ends in
  a media extension.
\<close>

theorem cleanup_fresh_media_file_counterexample:
  "fileAge freshSong < 60 * 60 * 1000 \<and>
   \<not> includesStr (fileName freshSong) (js ''1700000000123'') \<and>
   cleanupBody freshSongEnv = Some (Some (js ''1700000000123'')) \<and>
   videoTempDir freshSongEnv = Listing [freshSong] \<and>
   POST_cleanup freshSongEnv
     = (CleanupDone \<lparr>deletedFiles = 1, freedSpace = 700\<rparr>, Listing [], Listing [])"
  by (simp add: POST_cleanup_def freshSongEnv_def sweepDirectory_def Let_def
      videoFileDeleted_def freshSong_def fileAge_def unlinkSucceeds_def js_def
      startsWith_def isTemporaryMediaFile_def mediaExtensions_def endsWith_def)

section \<open>Theorems: text chunker\<close>


lemma fixedSlices_total:
  "0 < maxLength \<Longrightarrow>
     \<exists>slices. fixedSlices maxLength s = Some slices \<and> (\<forall>c \<in> set slices. length c \<le> maxLength)"
proof (induction maxLength s rule: fixedSlices.induct)
  case (1 maxLength s)
  show ?case
  proof (cases "s = []")
    case True
    then show ?thesis by (simp add: fixedSlices.simps)
  next
    case False
    with 1 obtain slices where
      "fixedSlices maxLength (drop maxLength s) = Some slices"
      "\<forall>c \<in> set slices. length c \<le> maxLength"
      by auto
    with False 1(2) show ?thesis
      by (subst fixedSlices.simps) auto
  qed
qed

lemma bounded_push: "bounded n ps \<Longrightarrow> length p \<le> n \<Longrightarrow> bounded n (pushIfNonEmpty ps p)"
  by (simp add: pushIfNonEmpty_def)

lemma length_appendWithSpace:
  "length (appendWithSpace a b) \<le> length a + length b + 1"
  by (simp add: appendWithSpace_def js_def)

lemma subSentenceLoop_total:
  "0 < maxLength \<Longrightarrow> bounded maxLength parts \<Longrightarrow> length subPart \<le> maxLength \<Longrightarrow>
     \<exists>parts' subPart'.
        subSentenceLoop maxLength subs (parts, subPart) = Some (parts', subPart') \<and>
        bounded maxLength parts' \<and> length subPart' \<le> maxLength"
proof (induction subs arbitrary: parts subPart)
  case Nil
  then show ?case by simp
next
  case (Cons sub subs)
  show ?case
  proof (cases "length sub > maxLength")
    case True
    from fixedSlices_total [OF Cons.prems(1), of sub] obtain slices where
      sl: "fixedSlices maxLength sub = Some slices" "bounded maxLength slices"
      by auto
    have "bounded maxLength (pushIfNonEmpty parts subPart @ slices)"
      using Cons.prems sl by (auto simp: pushIfNonEmpty_def)
    from Cons.IH [OF Cons.prems(1) this, of "[]"] True sl show ?thesis by simp
  next
    case False
    show ?thesis
    proof (cases "length subPart + length sub + 1 > maxLength")
      case True
      have "bounded maxLength (parts @ [subPart])"
        using Cons.prems by simp
      from Cons.IH [OF Cons.prems(1) this, of sub] False True show ?thesis by simp
    next
      case fits: False
      have "length (appendWithSpace subPart sub) \<le> maxLength"
        using fits length_appendWithSpace [of subPart sub] by linarith
      from Cons.IH [OF Cons.prems(1,2) this] False fits show ?thesis by simp
    qed
  qed
qed

lemma sentenceLoop_total:
  "0 < maxLength \<Longrightarrow> bounded maxLength parts \<Longrightarrow> length currentPart \<le> maxLength \<Longrightarrow>
     \<exists>parts' currentPart'.
        sentenceLoop maxLength sentences (parts, currentPart) = Some (parts', currentPart') \<and>
        bounded maxLength parts' \<and> length currentPart' \<le> maxLength"
proof (induction sentences arbitrary: parts currentPart)
  case Nil
  then show ?case by simp
next
  case (Cons sentence sentences)
  show ?case
  proof (cases "length sentence > maxLength")
    case True
    have "bounded maxLength (pushIfNonEmpty parts currentPart)"
      using Cons.prems by (simp add: pushIfNonEmpty_def)
    from subSentenceLoop_total
           [where subs = "splitAfter isClauseEnd None [] sentence" and subPart = "[]",
            OF Cons.prems(1) this]
    obtain parts1 subPart where
      sub: "subSentenceLoop maxLength (splitAfter isClauseEnd None [] sentence)
              (pushIfNonEmpty parts currentPart, []) = Some (parts1, subPart)"
        "bounded maxLength parts1" "length subPart \<le> maxLength"
      by auto
    have "bounded maxLength (pushIfNonEmpty parts1 subPart)"
      using sub by (simp add: pushIfNonEmpty_def)
    from Cons.IH [OF Cons.prems(1) this, of "[]"] True sub(1) show ?thesis by simp
  next
    case False
    show ?thesis
    proof (cases "length currentPart + length sentence + 1 > maxLength")
      case True
      have "bounded maxLength (parts @ [currentPart])"
        using Cons.prems by simp
      from Cons.IH [OF Cons.prems(1) this, of sentence] False True show ?thesis by simp
    next
      case fits: False
      have "length (appendWithSpace currentPart sentence) \<le> maxLength"
        using fits length_appendWithSpace [of currentPart sentence] by linarith
      from Cons.IH [OF Cons.prems(1,2) this] False fits show ?thesis by simp
    qed
  qed
qed

lemma splitText_total:
  assumes "0 < maxLength"
  shows "\<exists>chunks. splitText txt maxLength = Some chunks \<and> bounded maxLength chunks"
proof (cases "length txt \<le> maxLength")
  case True
  then show ?thesis by (simp add: splitText_def)
next
  case False
  from sentenceLoop_total
         [where sentences = "splitAfter isSentenceEnd None [] txt" and parts = "[]"
            and currentPart = "[]", OF assms]
  obtain parts currentPart where
    "sentenceLoop maxLength (splitAfter isSentenceEnd None [] txt) ([], []) = Some (parts, currentPart)"
    "bounded maxLength parts" "length currentPart \<le> maxLength"
    by auto
  with False show ?thesis by (simp add: splitText_def pushIfNonEmpty_def)
qed

lemma splitWhere_nonempty: "splitWhere P s \<noteq> []"
  by (induction s) (auto split: list.splits)

lemma splitWhere_append:
  "P w \<Longrightarrow> splitWhere P (a @ w # b) = splitWhere P a @ splitWhere P b"
  by (induction a) (auto split: list.splits simp: splitWhere_nonempty)

lemma wordsOf_Nil: "wordsOf [] = []"
  by (simp add: wordsOf_def)

lemma wordsOf_append:
  "isWhiteSpace w \<Longrightarrow> wordsOf (a @ w # b) = wordsOf a @ wordsOf b"
  by (simp add: wordsOf_def splitWhere_append)

lemma wordsOf_ws_Cons: "isWhiteSpace c \<Longrightarrow> wordsOf (c # cs) = wordsOf cs"
  by (simp add: wordsOf_def)

lemma wordsOf_dropWhile: "wordsOf (dropWhile isWhiteSpace cs) = wordsOf cs"
  by (induction cs) (simp_all add: wordsOf_ws_Cons)

lemma words_splitAfter:
  "concat (map wordsOf (splitAfter P prev piece rest)) = wordsOf (piece @ rest)"
proof (induction P prev piece rest rule: splitAfter.induct)
  case (1 P prev piece)
  then show ?case by simp
next
  case (2 P prev piece c cs)
  show ?case
  proof (cases "isWhiteSpace c \<and> (case prev of Some b \<Rightarrow> P b | None \<Rightarrow> False)")
    case True
    with 2(1) have "concat (map wordsOf (splitAfter P prev piece (c # cs)))
                     = wordsOf piece @ wordsOf (dropWhile isWhiteSpace cs)"
      by simp
    also have "\<dots> = wordsOf (piece @ c # cs)"
      using True by (simp add: wordsOf_append wordsOf_dropWhile)
    finally show ?thesis .
  next
    case False
    then have "splitAfter P prev piece (c # cs) = splitAfter P (Some c) (piece @ [c]) cs"
      by auto
    with False 2(2) show ?thesis by simp
  qed
qed

lemma space_is_ws: "isWhiteSpace 32"
  by (simp add: isWhiteSpace_def)

lemma words_joinWith:
  "wordsOf (joinWith (js '' '') chunks) = concat (map wordsOf chunks)"
proof (induction "js '' ''" chunks rule: joinWith.induct)
  case 1
  then show ?case by (simp add: wordsOf_Nil)
next
  case (2 x)
  then show ?case by simp
next
  case (3 x y ys)
  have "joinWith (js '' '') (x # y # ys) = x @ 32 # joinWith (js '' '') (y # ys)"
    by (simp add: js_def)
  with 3 show ?case
    by (simp add: wordsOf_append space_is_ws)
qed

lemma words_appendWithSpace:
  "wordsOf (appendWithSpace a b) = wordsOf a @ wordsOf b"
  by (simp add: appendWithSpace_def js_def wordsOf_append space_is_ws wordsOf_Nil)

lemma words_push: "wordsOfParts (pushIfNonEmpty ps p) = wordsOfParts ps @ wordsOf p"
  by (simp add: pushIfNonEmpty_def wordsOf_Nil)

lemma subSentenceLoop_words:
  "\<forall>sub \<in> set subs. length sub \<le> maxLength \<Longrightarrow>
   subSentenceLoop maxLength subs (parts, subPart) = Some (parts', subPart') \<Longrightarrow>
   wordsOfParts parts' @ wordsOf subPart'
     = wordsOfParts parts @ wordsOf subPart @ wordsOfParts subs"
proof (induction subs arbitrary: parts subPart)
  case Nil
  then show ?case by simp
next
  case (Cons sub subs)
  from Cons.prems(1) have short: "\<not> length sub > maxLength" and rest: "\<forall>s \<in> set subs. length s \<le> maxLength"
    by auto
  show ?case
  proof (cases "length subPart + length sub + 1 > maxLength")
    case True
    with short Cons.prems(2) have
      "subSentenceLoop maxLength subs (parts @ [subPart], sub) = Some (parts', subPart')"
      by simp
    from Cons.IH [OF rest this] show ?thesis
      by simp
  next
    case False
    with short Cons.prems(2) have
      "subSentenceLoop maxLength subs (parts, appendWithSpace subPart sub) = Some (parts', subPart')"
      by simp
    from Cons.IH [OF rest this] show ?thesis
      by (simp add: words_appendWithSpace)
  qed
qed

lemma sentenceLoop_words:
  "clausesFit maxLength sentences \<Longrightarrow>
   sentenceLoop maxLength sentences (parts, currentPart) = Some (parts', currentPart') \<Longrightarrow>
   wordsOfParts parts' @ wordsOf currentPart'
     = wordsOfParts parts @ wordsOf currentPart @ wordsOfParts sentences"
proof (induction sentences arbitrary: parts currentPart)
  case Nil
  then show ?case by simp
next
  case (Cons sentence sentences)
  from Cons.prems(1) have rest: "clausesFit maxLength sentences"
    by simp
  show ?case
  proof (cases "length sentence > maxLength")
    case True
    with Cons.prems(1) have fit:
      "\<forall>sub \<in> set (splitAfter isClauseEnd None [] sentence). length sub \<le> maxLength"
      by simp
    from True Cons.prems(2) obtain parts1 subPart where
      sub: "subSentenceLoop maxLength (splitAfter isClauseEnd None [] sentence)
              (pushIfNonEmpty parts currentPart, []) = Some (parts1, subPart)"
      and cont: "sentenceLoop maxLength sentences (pushIfNonEmpty parts1 subPart, [])
              = Some (parts', currentPart')"
      by (auto split: option.splits)
    from subSentenceLoop_words [OF fit sub] have
      "wordsOfParts parts1 @ wordsOf subPart
         = wordsOfParts parts @ wordsOf currentPart @ wordsOf sentence"
      using words_splitAfter [of isClauseEnd None "[]" sentence]
      by (simp add: words_push wordsOf_Nil)
    with Cons.IH [OF rest cont] show ?thesis
      by (simp add: words_push wordsOf_Nil)
  next
    case False
    show ?thesis
    proof (cases "length currentPart + length sentence + 1 > maxLength")
      case True
      with False Cons.prems(2) have
        "sentenceLoop maxLength sentences (parts @ [currentPart], sentence) = Some (parts', currentPart')"
        by simp
      from Cons.IH [OF rest this] show ?thesis
        by simp
    next
      case fits: False
      with False Cons.prems(2) have
        "sentenceLoop maxLength sentences (parts, appendWithSpace currentPart sentence)
           = Some (parts', currentPart')"
        by simp
      from Cons.IH [OF rest this] show ?thesis
        by (simp add: words_appendWithSpace)
    qed
  qed
qed

lemma splitText_words:
  assumes "noSlicingNeeded txt maxLength" and "splitText txt maxLength = Some chunks"
  shows "wordsOf (joinWith (js '' '') chunks) = wordsOf txt"
proof (cases "length txt \<le> maxLength")
  case True
  with assms(2) show ?thesis by (auto simp: splitText_def)
next
  case False
  with assms(1) have fit: "clausesFit maxLength (splitAfter isSentenceEnd None [] txt)"
    by (simp add: noSlicingNeeded_def)
  from False assms(2) obtain parts currentPart where
    run: "sentenceLoop maxLength (splitAfter isSentenceEnd None [] txt) ([], [])
             = Some (parts, currentPart)"
    and res: "chunks = pushIfNonEmpty parts currentPart"
    by (auto simp: splitText_def split: option.splits)
  from sentenceLoop_words [OF fit run] have
    "wordsOfParts parts @ wordsOf currentPart = wordsOf txt"
    using words_splitAfter [of isSentenceEnd None "[]" "txt"]
    by (simp add: wordsOf_Nil)
  with res show ?thesis
    using words_push [of parts currentPart]
    by (simp add: words_joinWith)
qed

lemma splitText_sliced_example:
  "splitText (js ''abcdefghij'') 3 = Some [js ''abc'', js ''def'', js ''ghi'', js ''j'']"
  by (simp add: splitText_def js_def isWhiteSpace_def isSentenceEnd_def isClauseEnd_def
       fixedSlices.simps pushIfNonEmpty_def appendWithSpace_def)

lemma splitText_clauses_example:
  "splitText (js ''ab. cd, ef'') 5 = Some [js ''ab.'', js ''cd,'', js ''ef'']"
  by (simp add: splitText_def js_def isWhiteSpace_def isSentenceEnd_def isClauseEnd_def
       fixedSlices.simps pushIfNonEmpty_def appendWithSpace_def)

lemma noSlicingNeeded_example: "noSlicingNeeded (js ''ab. cd, ef'') 5"
  by (simp add: noSlicingNeeded_def js_def isWhiteSpace_def isSentenceEnd_def isClauseEnd_def)

text \<open>
  C2 (amended). For every input text and every maximum chunk length of at least 1, the
  chunker returns a sequence of chunks none of which is longer than the maximum (an
  over-long word is cut into fixed-length slices); and whenever no fixed-length slicing
  is needed (the text is within the maximum, or every comma- or semicolon-delimited
  clause of every over-long sentence is), joining the chunks with single spaces gives a
  text with the words of the original, in order.
\<close>

theorem splitText_bounded_words_kept:
  assumes "1 \<le> maxLength"
  shows "\<exists>chunks. splitText txt maxLength = Some chunks \<and>
           (\<forall>c \<in> set chunks. length c \<le> maxLength) \<and>
           (noSlicingNeeded txt maxLength \<longrightarrow>
              wordsOf (joinWith (js '' '') chunks) = wordsOf txt)"
proof -
  from assms have "0 < maxLength" by simp
  from splitText_total [OF this, of "txt"] obtain chunks where
    c: "splitText txt maxLength = Some chunks" "\<forall>c \<in> set chunks. length c \<le> maxLength"
    by blast
  have "noSlicingNeeded txt maxLength \<longrightarrow> wordsOf (joinWith (js '' '') chunks) = wordsOf txt"
    using splitText_words [OF _ c(1)] by blast
  with c show ?thesis by blast
qed

theorem splitText_bounded_words_kept_witness:
  "(1::nat) \<le> 5 \<and> noSlicingNeeded (js ''ab. cd, ef'') 5 \<and>
   (\<exists>chunks. splitText (js ''ab. cd, ef'') 5 = Some chunks \<and>
      chunks = [js ''ab.'', js ''cd,'', js ''ef''] \<and>
      (\<forall>c \<in> set chunks. length c \<le> 5) \<and>
      wordsOf (joinWith (js '' '') chunks) = wordsOf (js ''ab. cd, ef''))"
proof -
  have h: "(1::nat) \<le> 5" by simp
  from splitText_bounded_words_kept [OF h, of "js ''ab. cd, ef''"]
  obtain chunks where
    "splitText (js ''ab. cd, ef'') 5 = Some chunks"
    "\<forall>c \<in> set chunks. length c \<le> 5"
    "noSlicingNeeded (js ''ab. cd, ef'') 5 \<longrightarrow>
       wordsOf (joinWith (js '' '') chunks) = wordsOf (js ''ab. cd, ef'')"
    by blast
  with splitText_clauses_example noSlicingNeeded_example show ?thesis
    by simp
qed

text \<open>
  The claim as stated fails when a word is longer than the maximum: the word is cut into
  slices, so the chunks joined with spaces hold four words where the text has one.
\<close>

theorem splitText_sliced_word_counterexample:
  "splitText (js ''abcdefghij'') 3 = Some [js ''abc'', js ''def'', js ''ghi'', js ''j''] \<and>
   wordsOf (joinWith (js '' '') [js ''abc'', js ''def'', js ''ghi'', js ''j''])
     = [js ''abc'', js ''def'', js ''ghi'', js ''j''] \<and>
   wordsOf (js ''abcdefghij'') = [js ''abcdefghij'']"
  using splitText_sliced_example
  by (simp add: wordsOf_def js_def isWhiteSpace_def)


section \<open>Theorems: remote-provider translation\<close>


lemma translateChunks_length: "length (fst (translateChunks env i chunks)) = length chunks"
  by (induction chunks arbitrary: i) (simp_all add: case_prod_beta split: option.splits)

lemma translateChunks_nth:
  "k < length chunks \<Longrightarrow>
   fst (translateChunks env i chunks) ! k =
     (case officialAPI env (i + k) (chunks ! k) of
        Some t \<Rightarrow> t
      | None \<Rightarrow> (case alternativeAPI env (i + k) (chunks ! k) of
                   Some t \<Rightarrow> t
                 | None \<Rightarrow> chunks ! k))"
proof (induction chunks arbitrary: i k)
  case Nil
  then show ?case by simp
next
  case (Cons chunk rest)
  show ?case
  proof (cases k)
    case 0
    then show ?thesis by (simp add: case_prod_beta split: option.splits)
  next
    case (Suc j)
    with Cons.prems have "j < length rest" by simp
    from Cons.IH [OF this, of "Suc i"] Suc show ?thesis
      by (simp add: case_prod_beta split: option.splits)
  qed
qed

lemma translateChunks_calls:
  "snd (translateChunks env i chunks) =
     concat (map (\<lambda>k. case officialAPI env (i + k) (chunks ! k) of
                         Some t \<Rightarrow> [OfficialCall (i + k)]
                       | None \<Rightarrow> [OfficialCall (i + k), AlternativeCall (i + k)])
                 [0..<length chunks])"
proof (induction chunks arbitrary: i)
  case Nil
  then show ?case by simp
next
  case (Cons chunk rest)
  from Cons.IH [of "Suc i"] show ?case
    by (simp add: map_upt_Suc case_prod_beta del: upt_Suc split: option.splits
          cong: option.case_cong)
qed

text \<open>
  C8. In the remote-provider translation every chunk of the text is sent to the primary
  endpoint first and to the secondary endpoint exactly when the primary call failed; the
  list of translated chunks has one entry per chunk, in order: the primary answer, else
  the secondary answer, else the untranslated chunk itself; the merged output is that
  list joined with single spaces; and the function returns a result whatever the
  endpoints do.
\<close>

theorem google_chunk_fallback:
  "\<exists>chunks res.
      splitText txt MAX_CHUNK_SIZE = Some chunks \<and>
      translateWithGoogle env txt sourceLang targetLang = Some res \<and>
      length (translatedChunks res) = length chunks \<and>
      mergedTranslation res = joinWith (js '' '') (translatedChunks res) \<and>
      (\<forall>k < length chunks.
          translatedChunks res ! k =
            (case officialAPI env k (chunks ! k) of
               Some t \<Rightarrow> t
             | None \<Rightarrow> (case alternativeAPI env k (chunks ! k) of
                          Some t \<Rightarrow> t
                        | None \<Rightarrow> chunks ! k))) \<and>
      apiCalls res =
        concat (map (\<lambda>k. case officialAPI env k (chunks ! k) of
                            Some t \<Rightarrow> [OfficialCall k]
                          | None \<Rightarrow> [OfficialCall k, AlternativeCall k])
                    [0..<length chunks])"
proof -
  from splitText_total [of MAX_CHUNK_SIZE "txt"] obtain chunks where
    split: "splitText txt MAX_CHUNK_SIZE = Some chunks"
    by (auto simp: MAX_CHUNK_SIZE_def)
  obtain translated calls where tc: "translateChunks env 0 chunks = (translated, calls)"
    by (cases "translateChunks env 0 chunks")
  have len: "length translated = length chunks"
    using translateChunks_length [of env 0 chunks] tc by simp
  have nth: "\<forall>k < length chunks.
          translated ! k =
            (case officialAPI env k (chunks ! k) of
               Some t \<Rightarrow> t
             | None \<Rightarrow> (case alternativeAPI env k (chunks ! k) of
                          Some t \<Rightarrow> t
                        | None \<Rightarrow> chunks ! k))"
    using translateChunks_nth [of _ chunks env 0] tc by (simp cong: option.case_cong)
  have calls: "calls =
        concat (map (\<lambda>k. case officialAPI env k (chunks ! k) of
                            Some t \<Rightarrow> [OfficialCall k]
                          | None \<Rightarrow> [OfficialCall k, AlternativeCall k])
                    [0..<length chunks])"
    using translateChunks_calls [of env 0 chunks] tc by (simp cong: option.case_cong)
  from split tc len nth calls show ?thesis
    by (simp add: translateWithGoogle_def Let_def)
qed

theorem google_chunk_fallback_witness:
  "\<exists>res. translateWithGoogle bothFail (js ''hello'') (js ''en'') (js ''fr'') = Some res \<and>
          translatedChunks res = [js ''hello''] \<and>
          mergedTranslation res = js ''hello'' \<and>
          apiCalls res = [OfficialCall 0, AlternativeCall 0]"
proof -
  have one: "splitText (js ''hello'') MAX_CHUNK_SIZE = Some [js ''hello'']"
    by (simp add: splitText_def MAX_CHUNK_SIZE_def js_def)
  from google_chunk_fallback [of "js ''hello''" bothFail "js ''en''" "js ''fr''"]
  obtain chunks res where
    r: "splitText (js ''hello'') MAX_CHUNK_SIZE = Some chunks"
       "translateWithGoogle bothFail (js ''hello'') (js ''en'') (js ''fr'') = Some res"
       "length (translatedChunks res) = length chunks"
       "mergedTranslation res = joinWith (js '' '') (translatedChunks res)"
       "\<forall>k < length chunks.
          translatedChunks res ! k =
            (case officialAPI bothFail k (chunks ! k) of
               Some t \<Rightarrow> t
             | None \<Rightarrow> (case alternativeAPI bothFail k (chunks ! k) of
                          Some t \<Rightarrow> t
                        | None \<Rightarrow> chunks ! k))"
       "apiCalls res =
          concat (map (\<lambda>k. case officialAPI bothFail k (chunks ! k) of
                              Some t \<Rightarrow> [OfficialCall k]
                            | None \<Rightarrow> [OfficialCall k, AlternativeCall k])
                      [0..<length chunks])"
    by blast
  from r(1) one have c: "chunks = [js ''hello'']" by simp
  with r(3) obtain x where x: "translatedChunks res = [x]"
    by (cases "translatedChunks res") auto
  from r(5) c x have "x = js ''hello''"
    by (simp add: bothFail_def)
  with x r(2,4,6) c show ?thesis
    by (simp add: bothFail_def)
qed

section \<open>Theorems: language detector\<close>

lemma pickLanguage_first_max:
  "pickLanguage S (d, m) = (d', m') \<Longrightarrow>
     (d' = d \<and> m' = m \<and> (\<forall>x \<in> set S. snd x \<le> m)) \<or>
     (\<exists>pre post. S = pre @ (d', m') # post \<and> m < m' \<and>
        (\<forall>x \<in> set pre. snd x < m') \<and> (\<forall>x \<in> set post. snd x \<le> m'))"
proof (induction S arbitrary: d m)
  case Nil
  then show ?case by simp
next
  case (Cons entry rest)
  obtain l s where entry: "entry = (l, s)" by (cases entry)
  show ?case
  proof (cases "s > m")
    case True
    with Cons.prems entry have run: "pickLanguage rest (l, s) = (d', m')" by simp
    from Cons.IH [OF run] show ?thesis
    proof
      assume "d' = l \<and> m' = s \<and> (\<forall>x \<in> set rest. snd x \<le> s)"
      with True entry have
        "entry # rest = [] @ (d', m') # rest \<and> m < m' \<and>
           (\<forall>x \<in> set []. snd x < m') \<and> (\<forall>x \<in> set rest. snd x \<le> m')"
        by simp
      then show ?thesis by blast
    next
      assume "\<exists>pre post. rest = pre @ (d', m') # post \<and> s < m' \<and>
                (\<forall>x \<in> set pre. snd x < m') \<and> (\<forall>x \<in> set post. snd x \<le> m')"
      then obtain pre post where
        p: "rest = pre @ (d', m') # post" "s < m'"
           "\<forall>x \<in> set pre. snd x < m'" "\<forall>x \<in> set post. snd x \<le> m'"
        by blast
      with True entry have
        "entry # rest = (entry # pre) @ (d', m') # post \<and> m < m' \<and>
           (\<forall>x \<in> set (entry # pre). snd x < m') \<and> (\<forall>x \<in> set post. snd x \<le> m')"
        by simp
      then show ?thesis by blast
    qed
  next
    case False
    with Cons.prems entry have run: "pickLanguage rest (d, m) = (d', m')" by simp
    from Cons.IH [OF run] show ?thesis
    proof
      assume "d' = d \<and> m' = m \<and> (\<forall>x \<in> set rest. snd x \<le> m)"
      with False entry show ?thesis by simp
    next
      assume "\<exists>pre post. rest = pre @ (d', m') # post \<and> m < m' \<and>
                (\<forall>x \<in> set pre. snd x < m') \<and> (\<forall>x \<in> set post. snd x \<le> m')"
      then obtain pre post where
        p: "rest = pre @ (d', m') # post" "m < m'"
           "\<forall>x \<in> set pre. snd x < m'" "\<forall>x \<in> set post. snd x \<le> m'"
        by blast
      with False entry have
        "entry # rest = (entry # pre) @ (d', m') # post \<and> m < m' \<and>
           (\<forall>x \<in> set (entry # pre). snd x < m') \<and> (\<forall>x \<in> set post. snd x \<le> m')"
        by simp
      then show ?thesis by blast
    qed
  qed
qed

lemma scores_languages:
  "map fst (scores txt) = map js [''en'', ''es'', ''fr'', ''de'', ''it'', ''ru'', ''ar'']"
  by (simp add: scores_def languagePatterns_def)

text \<open>
  C5 (amended). For every input text the language detector returns the language with the
  highest score among en, es, fr, de, it, ru, ar; when two or more languages tie for the
  highest score it returns the one that comes first in that order, and when all scores
  are zero it returns "en". (The scores are those of the first loop.)
\<close>

theorem detectLanguage_first_highest_score:
  "map fst (scores txt) = map js [''en'', ''es'', ''fr'', ''de'', ''it'', ''ru'', ''ar''] \<and>
   (\<exists>pre best post.
      scores txt = pre @ (detectLanguage txt, best) # post \<and>
      (\<forall>x \<in> set pre. snd x < best) \<and> (\<forall>x \<in> set post. snd x \<le> best)) \<and>
   ((\<forall>x \<in> set (scores txt). snd x = 0) \<longrightarrow> detectLanguage txt = js ''en'')"
proof -
  obtain d' m' where run: "pickLanguage (scores txt) (js ''en'', 0) = (d', m')"
    by (cases "pickLanguage (scores txt) (js ''en'', 0)")
  then have det: "detectLanguage txt = d'"
    by (simp add: detectLanguage_def)
  obtain s0 others where sc: "scores txt = (js ''en'', s0) # others"
    using scores_languages [of "txt"] by (cases "scores txt") auto
  from pickLanguage_first_max [OF run]
  have first: "\<exists>pre best post.
      scores txt = pre @ (d', best) # post \<and>
      (\<forall>x \<in> set pre. snd x < best) \<and> (\<forall>x \<in> set post. snd x \<le> best)"
  proof
    assume a: "d' = js ''en'' \<and> m' = 0 \<and> (\<forall>x \<in> set (scores txt). snd x \<le> 0)"
    with sc have "scores txt = [] @ (d', 0) # others \<and>
                  (\<forall>x \<in> set []. snd x < (0::nat)) \<and> (\<forall>x \<in> set others. snd x \<le> 0)"
      by simp
    then show ?thesis by blast
  next
    assume "\<exists>pre post. scores txt = pre @ (d', m') # post \<and> 0 < m' \<and>
              (\<forall>x \<in> set pre. snd x < m') \<and> (\<forall>x \<in> set post. snd x \<le> m')"
    then show ?thesis by blast
  qed
  have zero: "(\<forall>x \<in> set (scores txt). snd x = 0) \<longrightarrow> d' = js ''en''"
  proof
    assume z: "\<forall>x \<in> set (scores txt). snd x = 0"
    from pickLanguage_first_max [OF run] show "d' = js ''en''"
    proof
      assume "d' = js ''en'' \<and> m' = 0 \<and> (\<forall>x \<in> set (scores txt). snd x \<le> 0)"
      then show ?thesis by simp
    next
      assume "\<exists>pre post. scores txt = pre @ (d', m') # post \<and> 0 < m' \<and>
                (\<forall>x \<in> set pre. snd x < m') \<and> (\<forall>x \<in> set post. snd x \<le> m')"
      then obtain pre post where "scores txt = pre @ (d', m') # post" "0 < m'"
        by blast
      with z show ?thesis by auto
    qed
  qed
  from first zero det scores_languages [of "txt"] show ?thesis by simp
qed

lemma scores_und_die:
  "scores (js ''und die'') =
     [(js ''en'', 0), (js ''es'', 0), (js ''fr'', 0), (js ''de'', 2), (js ''it'', 0),
      (js ''ru'', 0), (js ''ar'', 0)]"
  by (simp add: scores_def languagePatterns_def matchCount_def wordMatchesHere_def js_def
      atWordBoundary_def carriesWordChar_def headOption_def isWordChar_def canonicalize_def)

lemma scores_la:
  "scores (js ''la'') =
     [(js ''en'', 0), (js ''es'', 1), (js ''fr'', 1), (js ''de'', 0), (js ''it'', 1),
      (js ''ru'', 0), (js ''ar'', 0)]"
  by (simp add: scores_def languagePatterns_def matchCount_def wordMatchesHere_def js_def
      atWordBoundary_def carriesWordChar_def headOption_def isWordChar_def canonicalize_def)

theorem detectLanguage_first_highest_score_witness:
  "scores (js ''und die'') =
     [(js ''en'', 0), (js ''es'', 0), (js ''fr'', 0)]
     @ (detectLanguage (js ''und die''), 2) # [(js ''it'', 0), (js ''ru'', 0), (js ''ar'', 0)] \<and>
   detectLanguage (js ''und die'') = js ''de''"
proof -
  from detectLanguage_first_highest_score [of "js ''und die''"]
  obtain pre best post where
    d: "scores (js ''und die'') = pre @ (detectLanguage (js ''und die''), best) # post"
       "\<forall>x \<in> set pre. snd x < best" "\<forall>x \<in> set post. snd x \<le> best"
    by blast
  have mem: "(js ''de'', 2) \<in> set (scores (js ''und die''))"
    by (simp add: scores_und_die)
  with d have "2 \<le> best" by auto
  moreover have "(detectLanguage (js ''und die''), best) \<in> set (scores (js ''und die''))"
    using d(1) by simp
  ultimately have "detectLanguage (js ''und die'') = js ''de''"
    by (auto simp: scores_und_die)
  then show ?thesis by (simp add: scores_und_die)
qed

text \<open>
  The claim as stated fails on a tie: the text "la" scores 1 for es, fr and it and 0 for
  en, and the detector answers "es", not "en".
\<close>

theorem detectLanguage_tie_counterexample:
  "scores (js ''la'') =
     [(js ''en'', 0), (js ''es'', 1), (js ''fr'', 1), (js ''de'', 0), (js ''it'', 1),
      (js ''ru'', 0), (js ''ar'', 0)] \<and>
   detectLanguage (js ''la'') = js ''es'' \<and> js ''es'' \<noteq> js ''en''"
  using scores_la by (simp add: detectLanguage_def js_def)

section \<open>Theorems: identifier resolver\<close>

lemma extractYouTubeVideoId_nonempty: "extractYouTubeVideoId env url \<noteq> []"
  by (auto simp: extractYouTubeVideoId_def js_def split: option.splits)

lemma digitsAfter_nonempty: "digitsAfter literal s = Some d \<Longrightarrow> d \<noteq> []"
  by (auto simp: digitsAfter_def split: if_splits)

lemma lazyVideos_nonempty: "lazyVideos s = Some d \<Longrightarrow> d \<noteq> []"
  by (induction s) (auto dest: digitsAfter_nonempty split: option.splits if_splits)

lemma searchFirst_Some: "searchFirst matchHere s = Some r \<Longrightarrow> \<exists>t. matchHere t = Some r"
  by (induction s) (auto split: option.splits)

lemma facebookHere_nonempty: "facebookHere s = Some d \<Longrightarrow> d \<noteq> []"
  by (auto simp: facebookHere_def Let_def
      dest: digitsAfter_nonempty lazyVideos_nonempty split: if_splits option.splits)

lemma tiktokHere_nonempty: "tiktokHere s = Some d \<Longrightarrow> d \<noteq> []"
  by (auto simp: tiktokHere_def dest: digitsAfter_nonempty split: if_splits)

lemma instagramHere_nonempty: "instagramHere s = Some d \<Longrightarrow> d \<noteq> []"
  by (auto simp: instagramHere_def Let_def split: if_splits option.splits)

lemma vimeoHere_nonempty: "vimeoHere s = Some d \<Longrightarrow> d \<noteq> []"
  by (auto simp: vimeoHere_def dest: digitsAfter_nonempty)

lemma utf8OfCodePoint_first:
  "cp < 0x110000 \<Longrightarrow> \<exists>b bs. utf8OfCodePoint cp = b # bs \<and> b < 248"
  by (auto simp: utf8OfCodePoint_def)

lemma unat_cu_bound: "unat (c :: cu) < 0x110000"
proof -
  have "unat c < 2 ^ 16" using unsigned_less [of c] by simp
  then show ?thesis by simp
qed

lemma utf8Encode_first:
  "u \<noteq> [] \<Longrightarrow> \<exists>b bs. utf8Encode u = b # bs \<and> b < 248"
proof (cases u rule: utf8Encode.cases)
  case 1
  then show "u \<noteq> [] \<Longrightarrow> ?thesis" by simp
next
  case (2 c)
  then show ?thesis
    using utf8OfCodePoint_first [OF unat_cu_bound, of c] by auto
next
  case (3 c d rest)
  show ?thesis
  proof (cases "isHighSurrogate c \<and> isLowSurrogate d")
    case True
    then have "unat c \<le> 0xDBFF" and "unat d \<le> 0xDFFF"
      by (simp_all add: isHighSurrogate_def isLowSurrogate_def)
    then have "0x10000 + (unat c - 0xD800) * 1024 + (unat d - 0xDC00) < (0x110000::nat)"
      by arith
    from utf8OfCodePoint_first [OF this] True 3 show ?thesis by auto
  next
    case False
    with 3 show ?thesis
      using utf8OfCodePoint_first [OF unat_cu_bound, of c] by auto
  qed
qed

lemma base64Code_alnum: "n < 62 \<Longrightarrow> isAlnumCode (base64Code n)"
  by (auto simp: base64Code_def isAlnumCode_def)

lemma base64_first:
  "b < 248 \<Longrightarrow> \<exists>cs. base64 (b # bs) = base64Code (b div 4) # cs \<and> isAlnumCode (base64Code (b div 4))"
proof -
  assume b: "b < 248"
  then have "b div 4 < 62" by simp
  then have a: "isAlnumCode (base64Code (b div 4))" by (rule base64Code_alnum)
  show ?thesis
  proof (cases bs)
    case Nil
    with a show ?thesis by simp
  next
    case (Cons b2 bs2)
    with a show ?thesis by (cases bs2) simp_all
  qed
qed

lemma otherPlatformId_nonempty: "u \<noteq> [] \<Longrightarrow> otherPlatformId u \<noteq> []"
proof -
  assume "u \<noteq> []"
  from utf8Encode_first [OF this] obtain b bs where
    e: "utf8Encode u = b # bs" "b < 248" by blast
  from base64_first [OF e(2), of bs] obtain cs where
    "base64 (b # bs) = base64Code (b div 4) # cs" "isAlnumCode (base64Code (b div 4))"
    by blast
  with e(1) show ?thesis by (simp add: otherPlatformId_def)
qed

lemma extractVideoId_not_empty: "extractVideoId env url platform \<noteq> Some []"
proof
  assume a: "extractVideoId env url platform = Some []"
  then obtain u where u: "url = Some u" "u \<noteq> []"
    by (auto simp: extractVideoId_def split: option.splits if_splits)
  from a u show False
    by (auto simp: extractVideoId_def extractYouTubeVideoId_nonempty otherPlatformId_nonempty
        split: if_splits
        dest!: searchFirst_Some
        dest: facebookHere_nonempty tiktokHere_nonempty instagramHere_nonempty vimeoHere_nonempty)
qed

lemma extractVideoId_deterministic:
  "patternMatches u platform \<or> platform = js ''other'' \<Longrightarrow>
   extractVideoId env' (Some u) platform = extractVideoId env (Some u) platform"
  by (auto simp: extractVideoId_def patternMatches_def extractYouTubeVideoId_def js_def
      split: option.splits if_splits)

text \<open>
  C1 (amended). For every URL (null and empty included) and every platform hint the
  identifier resolver returns, without throwing, either null or a non-empty id. It
  returns null for a null or empty URL and for a hint outside the six platforms; a
  non-empty id for every non-empty URL with the hint youtube or other; and for facebook,
  tiktok, instagram and vimeo an id exactly when the platform's pattern matches. For
  every URL whose platform pattern matches (and for the hint other), the id does not
  depend on the clock or the random source: repeated calls return the same id.
\<close>

theorem extractVideoId_null_or_nonempty_id:
  "extractVideoId env url platform \<noteq> Some [] \<and>
   ((url = None \<or> url = Some []) \<longrightarrow> extractVideoId env url platform = None) \<and>
   (platform \<notin> set supportedPlatforms \<longrightarrow> extractVideoId env url platform = None) \<and>
   (\<forall>u. url = Some u \<and> u \<noteq> [] \<and> (platform = js ''youtube'' \<or> platform = js ''other'') \<longrightarrow>
        (\<exists>videoId. extractVideoId env url platform = Some videoId \<and> videoId \<noteq> [])) \<and>
   (\<forall>u. url = Some u \<and> u \<noteq> [] \<and>
        platform \<in> set (map js [''facebook'', ''tiktok'', ''instagram'', ''vimeo'']) \<longrightarrow>
        (extractVideoId env url platform \<noteq> None \<longleftrightarrow> patternMatches u platform)) \<and>
   (\<forall>u env'. url = Some u \<and> (patternMatches u platform \<or> platform = js ''other'') \<longrightarrow>
        extractVideoId env' url platform = extractVideoId env url platform)"
proof -
  have a: "extractVideoId env url platform \<noteq> Some []"
    by (rule extractVideoId_not_empty)
  have b: "(url = None \<or> url = Some []) \<longrightarrow> extractVideoId env url platform = None"
    by (auto simp: extractVideoId_def)
  have c: "platform \<notin> set supportedPlatforms \<longrightarrow> extractVideoId env url platform = None"
    by (auto simp: extractVideoId_def supportedPlatforms_def split: option.splits)
  have d: "\<forall>u. url = Some u \<and> u \<noteq> [] \<and> (platform = js ''youtube'' \<or> platform = js ''other'') \<longrightarrow>
        (\<exists>videoId. extractVideoId env url platform = Some videoId \<and> videoId \<noteq> [])"
    by (auto simp: extractVideoId_def extractYouTubeVideoId_nonempty otherPlatformId_nonempty
        js_def)
  have e: "\<forall>u. url = Some u \<and> u \<noteq> [] \<and>
        platform \<in> set (map js [''facebook'', ''tiktok'', ''instagram'', ''vimeo'']) \<longrightarrow>
        (extractVideoId env url platform \<noteq> None \<longleftrightarrow> patternMatches u platform)"
    by (auto simp: extractVideoId_def patternMatches_def js_def)
  have f: "\<forall>u env'. url = Some u \<and> (patternMatches u platform \<or> platform = js ''other'') \<longrightarrow>
        extractVideoId env' url platform = extractVideoId env url platform"
    using extractVideoId_deterministic by blast
  from a b c d e f show ?thesis by blast
qed

lemma ytGroup2_example: "ytGroup2 (js ''https://youtu.be/dQw4w9WgXcQ'') = Some (js ''dQw4w9WgXcQ'')"
  by (simp add: ytGroup2_def ytGroup1_def js_def startsWith_def isLineTerminator_def isWordChar_def)

lemma vimeo_none_example:
  "extractVideoId morningEnv (Some (js ''https://example.com/video'')) (js ''vimeo'') = None"
  by (simp add: extractVideoId_def js_def vimeoHere_def digitsAfter_def startsWith_def)

theorem extractVideoId_null_or_nonempty_id_witness:
  "patternMatches (js ''https://youtu.be/dQw4w9WgXcQ'') (js ''youtube'') \<and>
   extractVideoId morningEnv (Some (js ''https://youtu.be/dQw4w9WgXcQ'')) (js ''youtube'')
     = Some (js ''dQw4w9WgXcQ'') \<and>
   extractVideoId eveningEnv (Some (js ''https://youtu.be/dQw4w9WgXcQ'')) (js ''youtube'')
     = extractVideoId morningEnv (Some (js ''https://youtu.be/dQw4w9WgXcQ'')) (js ''youtube'')"
proof -
  have ne: "js ''https://youtu.be/dQw4w9WgXcQ'' \<noteq> []"
    by (simp add: js_def)
  have len: "length (js ''dQw4w9WgXcQ'') = 11"
    by (simp add: js_def)
  have pm: "patternMatches (js ''https://youtu.be/dQw4w9WgXcQ'') (js ''youtube'')"
    by (simp add: patternMatches_def ytGroup2_example len)
  have val: "extractVideoId morningEnv (Some (js ''https://youtu.be/dQw4w9WgXcQ'')) (js ''youtube'')
               = Some (js ''dQw4w9WgXcQ'')"
    by (simp add: extractVideoId_def extractYouTubeVideoId_def ytGroup2_example ne len)
  from extractVideoId_null_or_nonempty_id
         [of morningEnv "Some (js ''https://youtu.be/dQw4w9WgXcQ'')" "js ''youtube''"] pm
  have "extractVideoId eveningEnv (Some (js ''https://youtu.be/dQw4w9WgXcQ'')) (js ''youtube'')
          = extractVideoId morningEnv (Some (js ''https://youtu.be/dQw4w9WgXcQ'')) (js ''youtube'')"
    by blast
  with pm val show ?thesis by simp
qed

text \<open>
  The claim as stated fails: the resolver answers null for an empty URL, for a null URL,
  and for a URL that the platform's pattern does not match.
\<close>

theorem extractVideoId_null_counterexample:
  "extractVideoId morningEnv (Some []) (js ''youtube'') = None \<and>
   extractVideoId morningEnv None (js ''facebook'') = None \<and>
   extractVideoId morningEnv (Some (js ''https://example.com/video'')) (js ''vimeo'') = None"
  using vimeo_none_example by (simp add: extractVideoId_def)


section \<open>Theorems: transcription POST handler\<close>

lemma showNat_nonempty: "showNat n \<noteq> []"
  by (subst showNat.simps) simp

lemma processAudio_shape:
  "\<exists>res l. set log \<subseteq> set l \<and>
     (\<forall>tp. \<exists>tp'. processAudio w title path rk tp log = Returns (res, tp', l))"
proof (cases "fst (transcribeStep w)")
  case None
  then show ?thesis
    by (intro exI [of _ "failedResult (js ''Transcription failed'') path"]
              exI [of _ "log @ snd (transcribeStep w)"])
       (simp add: processAudio_def Let_def)
next
  case (Some out)
  show ?thesis
  proof (cases "outSuccess out \<and> orDefault (outTranscript out) [] \<noteq> []")
    case True
    with Some show ?thesis
      by (intro exI [of _ "\<lparr>resultSuccess = True, resultTranscript = outTranscript out,
                             resultTitle = Some title,
                             resultLanguage = Some (orDefault (outLanguage out) (js ''en'')),
                             resultError = None, resultAudioPath = path\<rparr>"]
                exI [of _ "log @ snd (transcribeStep w)"])
         (simp add: processAudio_def Let_def)
  next
    case False
    with Some show ?thesis
      by (intro exI [of _ "failedResult (orDefault (outError out) (js ''Transcription failed''))
                             path"]
                exI [of _ "log @ snd (transcribeStep w)"])
         (auto simp: processAudio_def Let_def)
  qed
qed

lemma downloadStep_log: "YtDlpDownload \<in> set (snd (downloadStep w p))"
  by (simp add: downloadStep_def split: attempt.splits option.splits)

lemma processYouTubeVideo_shape:
  "tempDirExists w \<or> \<not> mkdirSyncFails w \<Longrightarrow>
   \<exists>res l. TitleLookup \<in> set l \<and> YtDlpDownload \<in> set l \<and>
     (\<forall>tp. \<exists>tp'. processYouTubeVideo w url d rk tp = Returns (res, tp', l))"
proof -
  assume dir: "tempDirExists w \<or> \<not> mkdirSyncFails w"
  define videoId where
    "videoId = orDefault (extractVideoId (idEnvOfProcess w) (Some url) (js ''youtube''))
                 (js ''unknown_'' @ showNat (nowAtUnknownId w))"
  define base where "base = pathJoin d videoId"
  define title where "title = orDefault (Some (getTitleAsync w)) (js ''Video '' @ videoId)"
  define log1 where "log1 = TitleLookup # snd (downloadStep w (base @ js ''.mp3''))"
  have l1: "TitleLookup \<in> set log1" "YtDlpDownload \<in> set log1"
    by (simp_all add: log1_def downloadStep_log)
  show ?thesis
  proof (cases "filter (\<lambda>ext. diskHas w (base @ ext)) possibleExtensions")
    case (Cons ext exts)
    from processAudio_shape [of log1 w title "base @ ext" rk] obtain res l where
      a: "set log1 \<subseteq> set l"
         "\<forall>tp. \<exists>tp'. processAudio w title (base @ ext) rk tp log1 = Returns (res, tp', l)"
      by blast
    have "\<forall>tp. \<exists>tp'. processYouTubeVideo w url d rk tp = Returns (res, tp', l)"
      using dir Cons a(2)
      by (simp add: processYouTubeVideo_def Let_def videoId_def [symmetric]
            base_def [symmetric] title_def [symmetric] log1_def [symmetric])
    with a(1) l1 show ?thesis by blast
  next
    case Nil
    show ?thesis
    proof (cases "tempDirListing w")
      case (Throws e)
      have "\<forall>tp. \<exists>tp'. processYouTubeVideo w url d rk tp
              = Returns (failedResult e (fst (downloadStep w (base @ js ''.mp3''))), tp', log1)"
        using dir Nil Throws
        by (simp add: processYouTubeVideo_def Let_def videoId_def [symmetric]
              base_def [symmetric] title_def [symmetric] log1_def [symmetric])
      with l1 show ?thesis by blast
    next
      case (Returns files)
      show ?thesis
      proof (cases "filter (\<lambda>file. includesStr file videoId
                              \<and> (\<exists>ext \<in> set possibleExtensions. endsWith file ext)) files")
        case inner: Nil
        have "\<forall>tp. \<exists>tp'. processYouTubeVideo w url d rk tp
                = Returns (failedResult (js ''Failed to download audio file'')
                             (fst (downloadStep w (base @ js ''.mp3''))), tp', log1)"
          using dir Nil Returns inner
          by (simp add: processYouTubeVideo_def Let_def videoId_def [symmetric]
                base_def [symmetric] title_def [symmetric] log1_def [symmetric])
        with l1 show ?thesis by blast
      next
        case inner: (Cons found others)
        from processAudio_shape [of log1 w title "pathJoin d found" rk] obtain res l where
          a: "set log1 \<subseteq> set l"
             "\<forall>tp. \<exists>tp'. processAudio w title (pathJoin d found) rk tp log1
                      = Returns (res, tp', l)"
          by blast
        have "\<forall>tp. \<exists>tp'. processYouTubeVideo w url d rk tp = Returns (res, tp', l)"
          using dir Nil Returns inner a(2)
          by (simp add: processYouTubeVideo_def Let_def videoId_def [symmetric]
                base_def [symmetric] title_def [symmetric] log1_def [symmetric])
        with a(1) l1 show ?thesis by blast
      qed
    qed
  qed
qed

lemma processYouTubeVideo_throws:
  "\<not> tempDirExists w \<and> mkdirSyncFails w \<Longrightarrow>
   processYouTubeVideo w url d rk tp = Throws (js ''mkdirSync failed'')"
  by (simp add: processYouTubeVideo_def Let_def)


lemma freshCached_setProgress [simp]:
  "freshCached w (setProgress st rk n l) ck = freshCached w st ck"
  by (simp add: freshCached_def setProgress_def)

lemma freshCached_withoutCached [simp]: "freshCached w (withoutCached st ck) ck = None"
  by (simp add: freshCached_def withoutCached_def)

lemma setProgress_withoutCached:
  "setProgress (withoutCached st ck) rk n l = withoutCached (setProgress st rk n l) ck"
  by (simp add: setProgress_def withoutCached_def)

lemma afterCacheMiss_ignores_cache:
  "fst (afterCacheMiss w (withoutCached st k) opts url rk ck)
     = fst (afterCacheMiss w st opts url rk ck) \<and>
   snd (snd (afterCacheMiss w (withoutCached st k) opts url rk ck))
     = snd (snd (afterCacheMiss w st opts url rk ck))"
  by (simp add: afterCacheMiss_def finishFallback_def finishSuccess_def setProgress_def
      storeInCache_def withoutCached_def Let_def
      split: propValue.splits attempt.splits prod.splits)

lemma finishFallback_log: "snd (snd (finishFallback st opts rk res log)) = log"
  by (simp add: finishFallback_def Let_def split: attempt.splits)

lemma finishSuccess_log: "set log \<subseteq> set (snd (snd (finishSuccess w st opts rk ck res log)))"
  by (simp add: finishSuccess_def Let_def)

lemma afterCacheMiss_runs_pipeline:
  assumes "platformType opts = Some (js ''youtube'')"
    and "getProp knownVideos (extractYouTubeVideoId (idEnvOfPost w) (Some url)) = Undefined"
    and "\<not> mkdirTempDirFails w" and "tempDirExists w \<or> \<not> mkdirSyncFails w"
  shows "TitleLookup \<in> set (snd (snd (afterCacheMiss w st opts url rk ck))) \<and>
         YtDlpDownload \<in> set (snd (snd (afterCacheMiss w st opts url rk ck)))"
proof -
  from processYouTubeVideo_shape [OF assms(4), of url "tempDirOf w" rk]
  obtain res l where
    l: "TitleLookup \<in> set l" "YtDlpDownload \<in> set l"
    and p: "\<forall>tp. \<exists>tp'. processYouTubeVideo w url (tempDirOf w) rk tp = Returns (res, tp', l)"
    by blast
  define tp3 where
    "tp3 = transcriptionProgress
             (setProgress
                (setProgress (st\<lparr>tempVideoId := Some (extractYouTubeVideoId (idEnvOfPost w) (Some url))\<rparr>)
                   rk 10 ''Starting download process'')
                rk 15 ''Extracting content'')"
  from p obtain tp' where
    run: "processYouTubeVideo w url (tempDirOf w) rk tp3 = Returns (res, tp', l)"
    by blast
  have "set l \<subseteq> set (snd (snd (afterCacheMiss w st opts url rk ck)))"
    using assms(1,2,3) run finishSuccess_log
    by (simp add: afterCacheMiss_def Let_def tp3_def extractYouTubeVideoId_nonempty
          finishFallback_log)
  with l show ?thesis by blast
qed

text \<open>
  C3. For every transcription submission with a parsed body and a non-empty URL for whose
  (url, targetLanguage) key the result cache holds an entry: while the entry is younger
  than 24 hours the POST handler returns the cached result and runs no external tool;
  once the entry is 24 hours old or older it is ignored (response and tools are those of
  the same request with the entry absent), and for a YouTube submission of a video that
  is not pre-registered, with the temp directory in place, the download pipeline runs
  afresh.
\<close>

theorem cached_result_within_a_day:
  assumes "requestJson w = Some b" and "bodyUrl b = Some url" and "url \<noteq> []"
    and "transcriptionCache st (cacheKeyOf url (bodyOptions b)) = Some (cachedData, timestamp)"
  shows "(int (nowAtCacheCheck w) - int timestamp < CACHE_DURATION \<longrightarrow>
            fst (POST_transcribe w st) = Ok200 cachedData \<and>
            snd (snd (POST_transcribe w st)) = []) \<and>
         (int (nowAtCacheCheck w) - int timestamp \<ge> CACHE_DURATION \<longrightarrow>
            fst (POST_transcribe w st)
              = fst (POST_transcribe w (withoutCached st (cacheKeyOf url (bodyOptions b)))) \<and>
            snd (snd (POST_transcribe w st))
              = snd (snd (POST_transcribe w
                            (withoutCached st (cacheKeyOf url (bodyOptions b))))) \<and>
            (platformType (bodyOptions b) = Some (js ''youtube'') \<and>
             getProp knownVideos (extractYouTubeVideoId (idEnvOfPost w) (Some url)) = Undefined \<and>
             \<not> mkdirTempDirFails w \<and> (tempDirExists w \<or> \<not> mkdirSyncFails w) \<longrightarrow>
               TitleLookup \<in> set (snd (snd (POST_transcribe w st))) \<and>
               YtDlpDownload \<in> set (snd (snd (POST_transcribe w st)))))"
proof (intro conjI impI)
  assume fresh: "int (nowAtCacheCheck w) - int timestamp < CACHE_DURATION"
  then have hit: "freshCached w st (cacheKeyOf url (bodyOptions b)) = Some cachedData"
    using assms(4) by (simp add: freshCached_def)
  with assms(1-3) show "fst (POST_transcribe w st) = Ok200 cachedData"
    by (simp add: POST_transcribe_def Let_def showNat_nonempty)
  from hit assms(1-3) show "snd (snd (POST_transcribe w st)) = []"
    by (simp add: POST_transcribe_def Let_def showNat_nonempty)
next
  assume stale: "CACHE_DURATION \<le> int (nowAtCacheCheck w) - int timestamp"
  let ?ck = "cacheKeyOf url (bodyOptions b)"
  let ?rk = "showNat (nowAtStart w)"
  have miss: "freshCached w st ?ck = None"
    using assms(4) stale by (simp add: freshCached_def)
  have run: "POST_transcribe w st
               = afterCacheMiss w (setProgress st ?rk 1 ''Starting process'')
                   (bodyOptions b) url ?rk ?ck"
    using assms(1-3) miss by (simp add: POST_transcribe_def Let_def showNat_nonempty)
  have run': "POST_transcribe w (withoutCached st ?ck)
               = afterCacheMiss w (withoutCached (setProgress st ?rk 1 ''Starting process'') ?ck)
                   (bodyOptions b) url ?rk ?ck"
    using assms(1-3)
    by (simp add: POST_transcribe_def Let_def showNat_nonempty setProgress_withoutCached)
  show "fst (POST_transcribe w st) = fst (POST_transcribe w (withoutCached st ?ck))"
    by (simp only: run run' afterCacheMiss_ignores_cache)
  show "snd (snd (POST_transcribe w st)) = snd (snd (POST_transcribe w (withoutCached st ?ck)))"
    by (simp only: run run' afterCacheMiss_ignores_cache)
  {
    assume "platformType (bodyOptions b) = Some (js ''youtube'') \<and>
            getProp knownVideos (extractYouTubeVideoId (idEnvOfPost w) (Some url)) = Undefined \<and>
            \<not> mkdirTempDirFails w \<and> (tempDirExists w \<or> \<not> mkdirSyncFails w)"
    then have both:
      "TitleLookup \<in> set (snd (snd (POST_transcribe w st))) \<and>
       YtDlpDownload \<in> set (snd (snd (POST_transcribe w st)))"
      unfolding run by (intro afterCacheMiss_runs_pipeline) simp_all
    from both show "TitleLookup \<in> set (snd (snd (POST_transcribe w st)))" ..
    from both show "YtDlpDownload \<in> set (snd (snd (POST_transcribe w st)))" ..
  }
qed


lemma demo_body:
  "requestJson unreachableWorld
     = Some \<lparr>bodyUrl = Some demoUrl,
             bodyOptions = \<lparr>targetLanguage = Some (js ''he''),
                            platformType = Some (js ''youtube'')\<rparr>\<rparr>"
  by (simp add: unreachableWorld_def)

lemma demoUrl_nonempty: "demoUrl \<noteq> []"
  by (simp add: demoUrl_def js_def)

lemma demo_cacheKey:
  "cacheKeyOf demoUrl \<lparr>targetLanguage = Some (js ''he''), platformType = Some (js ''youtube'')\<rparr>
     = demoUrl @ js ''_he''"
  by (simp add: cacheKeyOf_def orDefault_def js_def)

lemma demo_videoId:
  "extractYouTubeVideoId morningEnv (Some demoUrl) = js ''dQw4w9WgXcQ''"
  using ytGroup2_example
  by (simp add: extractYouTubeVideoId_def demoUrl_def js_def)

lemma demo_not_known: "getProp knownVideos (js ''dQw4w9WgXcQ'') = Undefined"
  by (simp add: getProp_def knownVideos_def objectPrototypeKeys_def js_def)

theorem cached_result_within_a_day_witness:
  "fst (POST_transcribe unreachableWorld recentlyCachedState) = Ok200 cachedDemo \<and>
   snd (snd (POST_transcribe unreachableWorld recentlyCachedState)) = [] \<and>
   fst (POST_transcribe unreachableWorld longAgoCachedState)
     = fst (POST_transcribe unreachableWorld
              (withoutCached longAgoCachedState (demoUrl @ js ''_he''))) \<and>
   TitleLookup \<in> set (snd (snd (POST_transcribe unreachableWorld longAgoCachedState))) \<and>
   YtDlpDownload \<in> set (snd (snd (POST_transcribe unreachableWorld longAgoCachedState)))"
proof -
  let ?b = "\<lparr>bodyUrl = Some demoUrl,
              bodyOptions = \<lparr>targetLanguage = Some (js ''he''),
                             platformType = Some (js ''youtube'')\<rparr>\<rparr>"
  have url: "bodyUrl ?b = Some demoUrl" by simp
  have recent: "transcriptionCache recentlyCachedState (cacheKeyOf demoUrl (bodyOptions ?b))
                  = Some (cachedDemo, 1699999990001)"
    by (simp add: recentlyCachedState_def emptyState_def demo_cacheKey)
  have longAgo: "transcriptionCache longAgoCachedState (cacheKeyOf demoUrl (bodyOptions ?b))
                  = Some (cachedDemo, 1600000000000)"
    by (simp add: longAgoCachedState_def emptyState_def demo_cacheKey)
  have fresh: "int (nowAtCacheCheck unreachableWorld) - int 1699999990001 < CACHE_DURATION"
    by (simp add: unreachableWorld_def CACHE_DURATION_def)
  have stale: "int (nowAtCacheCheck unreachableWorld) - int 1600000000000 \<ge> CACHE_DURATION"
    by (simp add: unreachableWorld_def CACHE_DURATION_def)
  have pipeline:
    "platformType (bodyOptions ?b) = Some (js ''youtube'') \<and>
     getProp knownVideos (extractYouTubeVideoId (idEnvOfPost unreachableWorld) (Some demoUrl))
       = Undefined \<and>
     \<not> mkdirTempDirFails unreachableWorld \<and>
     (tempDirExists unreachableWorld \<or> \<not> mkdirSyncFails unreachableWorld)"
    by (simp add: unreachableWorld_def demo_videoId demo_not_known)
  from cached_result_within_a_day [OF demo_body url demoUrl_nonempty recent] fresh
  have a: "fst (POST_transcribe unreachableWorld recentlyCachedState) = Ok200 cachedDemo \<and>
           snd (snd (POST_transcribe unreachableWorld recentlyCachedState)) = []"
    by blast
  from cached_result_within_a_day [OF demo_body url demoUrl_nonempty longAgo] stale pipeline
  have b: "fst (POST_transcribe unreachableWorld longAgoCachedState)
             = fst (POST_transcribe unreachableWorld
                      (withoutCached longAgoCachedState
                         (cacheKeyOf demoUrl (bodyOptions ?b)))) \<and>
           TitleLookup \<in> set (snd (snd (POST_transcribe unreachableWorld longAgoCachedState))) \<and>
           YtDlpDownload \<in> set (snd (snd (POST_transcribe unreachableWorld longAgoCachedState)))"
    by blast
  from a b show ?thesis by (simp add: demo_cacheKey)
qed

lemma fallbackHebrew_nonempty: "fallbackHebrew \<noteq> []"
  by (simp add: fallbackHebrew_def)

lemma translateFallback_unknown:
  "v \<noteq> [] \<Longrightarrow> getProp knownVideos v = Undefined \<Longrightarrow>
   \<exists>translated. translateFallback (Some v) transcript lang = Returns translated \<and>
     (lang \<notin> set objectPrototypeKeys \<longrightarrow> translated = JString fallbackHebrew)"
  by (auto simp: translateFallback_def Let_def getProp_def fallbackTranslations_def
      fallbackHebrew_nonempty split: option.splits if_splits)

text \<open>
  C4. For every YouTube submission that reaches content extraction (no fresh cache
  entry, not a pre-registered video, temp directory created) and whose extraction fails,
  the POST handler answers 200 with success = true, the fallback transcript, the
  translation that \<open>translateFallback\<close> supplies (the Hebrew fallback text for every
  target language that is not the name of a member of \<open>Object.prototype\<close>) and the
  expected audio path.
\<close>

theorem fallback_on_failed_extraction:
  assumes "requestJson w = Some b" and "bodyUrl b = Some url" and "url \<noteq> []"
    and "platformType (bodyOptions b) = Some (js ''youtube'')"
    and "freshCached w st (cacheKeyOf url (bodyOptions b)) = None"
    and "getProp knownVideos (extractYouTubeVideoId (idEnvOfPost w) (Some url)) = Undefined"
    and "\<not> mkdirTempDirFails w"
    and "extractionFails w url"
  shows "\<exists>translated audioPath.
           fst (POST_transcribe w st)
             = Ok200 \<lparr>dataSuccess = True, dataTranscript = fallbackTranscript,
                      dataTranslation = translated, dataDetectedLanguage = js ''en'',
                      dataTitle = js ''Could not extract video content - using fallback'',
                      dataAudioPath = Some audioPath\<rparr> \<and>
           (orDefault (targetLanguage (bodyOptions b)) (js ''he'') \<notin> set objectPrototypeKeys
              \<longrightarrow> translated = JString fallbackHebrew)"
proof -
  let ?rk = "showNat (nowAtStart w)"
  let ?ck = "cacheKeyOf url (bodyOptions b)"
  let ?lang = "orDefault (targetLanguage (bodyOptions b)) (js ''he'')"
  let ?v = "extractYouTubeVideoId (idEnvOfPost w) (Some url)"
  have dir: "tempDirExists w \<or> \<not> mkdirSyncFails w"
  proof (rule ccontr)
    assume "\<not> (tempDirExists w \<or> \<not> mkdirSyncFails w)"
    then have "processYouTubeVideo w url (tempDirOf w) ?rk Map.empty
                 = Throws (js ''mkdirSync failed'')"
      by (intro processYouTubeVideo_throws) simp
    with assms(8) show False by (simp add: extractionFails_def)
  qed
  from processYouTubeVideo_shape [OF dir, of url "tempDirOf w" ?rk]
  obtain res l where
    p: "\<forall>tp. \<exists>tp'. processYouTubeVideo w url (tempDirOf w) ?rk tp = Returns (res, tp', l)"
    by blast
  from p obtain tp0 where
    "processYouTubeVideo w url (tempDirOf w) ?rk Map.empty = Returns (res, tp0, l)"
    by blast
  with assms(8) have failed: "\<not> resultSuccess res"
    by (simp add: extractionFails_def)
  define st3 where
    "st3 = setProgress
             (setProgress ((setProgress st ?rk 1 ''Starting process'')\<lparr>tempVideoId := Some ?v\<rparr>)
                ?rk 10 ''Starting download process'')
             ?rk 15 ''Extracting content''"
  from p obtain tp' where
    run: "processYouTubeVideo w url (tempDirOf w) ?rk (transcriptionProgress st3)
            = Returns (res, tp', l)"
    by blast
  have tv: "tempVideoId (setProgress (st3\<lparr>transcriptionProgress := tp'\<rparr>) ?rk 100
                           ''Completed with fallback'') = Some ?v"
    by (simp add: st3_def setProgress_def)
  from translateFallback_unknown [OF extractYouTubeVideoId_nonempty assms(6), of fallbackTranscript ?lang]
  obtain translated where
    t: "translateFallback (Some ?v) fallbackTranscript ?lang = Returns translated"
       "?lang \<notin> set objectPrototypeKeys \<longrightarrow> translated = JString fallbackHebrew"
    by blast
  have "POST_transcribe w st
          = afterCacheMiss w (setProgress st ?rk 1 ''Starting process'') (bodyOptions b) url ?rk ?ck"
    using assms(1-3,5) by (simp add: POST_transcribe_def Let_def showNat_nonempty)
  also have "\<dots> = finishFallback (st3\<lparr>transcriptionProgress := tp'\<rparr>) (bodyOptions b) ?rk res l"
    using assms(4,6,7) run failed
    by (simp add: afterCacheMiss_def Let_def extractYouTubeVideoId_nonempty st3_def)
  finally have "fst (POST_transcribe w st)
          = Ok200 \<lparr>dataSuccess = True, dataTranscript = fallbackTranscript,
                   dataTranslation = translated, dataDetectedLanguage = js ''en'',
                   dataTitle = js ''Could not extract video content - using fallback'',
                   dataAudioPath = Some (resultAudioPath res)\<rparr>"
    using t(1) tv by (simp add: finishFallback_def Let_def)
  with t(2) show ?thesis by blast
qed


lemma unreachable_extraction_fails: "extractionFails unreachableWorld demoUrl"
  by (simp add: extractionFails_def processYouTubeVideo_def Let_def unreachableWorld_def
      downloadStep_def failedResult_def)

theorem fallback_on_failed_extraction_witness:
  "extractionFails unreachableWorld demoUrl \<and>
   freshCached unreachableWorld emptyState (demoUrl @ js ''_he'') = None \<and>
   js ''he'' \<notin> set objectPrototypeKeys \<and>
   (\<exists>audioPath.
      fst (POST_transcribe unreachableWorld emptyState)
        = Ok200 \<lparr>dataSuccess = True, dataTranscript = fallbackTranscript,
                 dataTranslation = JString fallbackHebrew, dataDetectedLanguage = js ''en'',
                 dataTitle = js ''Could not extract video content - using fallback'',
                 dataAudioPath = Some audioPath\<rparr>)"
proof -
  let ?b = "\<lparr>bodyUrl = Some demoUrl,
              bodyOptions = \<lparr>targetLanguage = Some (js ''he''),
                             platformType = Some (js ''youtube'')\<rparr>\<rparr>"
  have url: "bodyUrl ?b = Some demoUrl" by simp
  have yt: "platformType (bodyOptions ?b) = Some (js ''youtube'')" by simp
  have miss: "freshCached unreachableWorld emptyState (cacheKeyOf demoUrl (bodyOptions ?b)) = None"
    by (simp add: freshCached_def emptyState_def)
  have unknown:
    "getProp knownVideos (extractYouTubeVideoId (idEnvOfPost unreachableWorld) (Some demoUrl))
       = Undefined"
    by (simp add: unreachableWorld_def demo_videoId demo_not_known)
  have mk: "\<not> mkdirTempDirFails unreachableWorld"
    by (simp add: unreachableWorld_def)
  have lang: "orDefault (targetLanguage (bodyOptions ?b)) (js ''he'') = js ''he''"
    by (simp add: orDefault_def js_def)
  have he: "js ''he'' \<notin> set objectPrototypeKeys"
    by (simp add: objectPrototypeKeys_def js_def)
  from fallback_on_failed_extraction
         [OF demo_body url demoUrl_nonempty yt miss unknown mk unreachable_extraction_fails]
  obtain translated audioPath where
    r: "fst (POST_transcribe unreachableWorld emptyState)
          = Ok200 \<lparr>dataSuccess = True, dataTranscript = fallbackTranscript,
                   dataTranslation = translated, dataDetectedLanguage = js ''en'',
                   dataTitle = js ''Could not extract video content - using fallback'',
                   dataAudioPath = Some audioPath\<rparr>"
       "orDefault (targetLanguage (bodyOptions ?b)) (js ''he'') \<notin> set objectPrototypeKeys
          \<longrightarrow> translated = JString fallbackHebrew"
    by blast
  from r(2) lang he have "translated = JString fallbackHebrew" by simp
  with r(1) miss he unreachable_extraction_fails show ?thesis
    by (auto simp: demo_cacheKey)
qed

lemma updateProgress_sweeps:
  "updateProgress now rk percent label extra tp k = Some e \<Longrightarrow> \<not> isStale now k"
  by (auto simp: updateProgress_def Let_def split: if_splits)

lemma updateProgress_writes:
  "\<not> isStale now rk \<Longrightarrow> rk \<noteq> js ''__proto__'' \<Longrightarrow>
   updateProgress now rk percent label extra tp rk = Some (mergeEntry (tp rk) percent label extra)"
  by (simp add: updateProgress_def Let_def setProp_def)

lemma stale_1000: "isStale 1700000000000 (js ''1000'')"
  by (simp add: isStale_def parseIntJS_def parseDigits_def hexDigitVal_def js_def
      isWhiteSpace_def Let_def)

lemma showNat_demo: "showNat 1700000000000 = js ''1700000000000''"
  by (simp add: showNat.simps js_def)

lemma setProp_other: "k \<noteq> rk \<Longrightarrow> setProp tp rk v k = tp k"
  by (simp add: setProp_def)

lemma processAudio_keeps:
  "processAudio w title path rk tp log = Returns (res, tp', l) \<Longrightarrow> k \<noteq> rk \<Longrightarrow> tp' k = tp k"
  by (auto simp: processAudio_def Let_def setProp_other split: option.splits if_splits)

lemma processYouTubeVideo_keeps:
  "processYouTubeVideo w url d rk tp = Returns (res, tp', l) \<Longrightarrow> k \<noteq> rk \<Longrightarrow> tp' k = tp k"
  by (auto simp: processYouTubeVideo_def Let_def setProp_other
      split: list.splits attempt.splits if_splits dest!: processAudio_keeps)

lemma setProgress_other:
  "k \<noteq> rk \<Longrightarrow> transcriptionProgress (setProgress st rk n l) k = transcriptionProgress st k"
  by (simp add: setProgress_def setProp_other)

lemma finishFallback_keeps:
  "k \<noteq> rk \<Longrightarrow>
   transcriptionProgress (fst (snd (finishFallback st opts rk res log))) k
     = transcriptionProgress st k"
  by (simp add: finishFallback_def Let_def setProgress_other split: attempt.splits)

lemma finishSuccess_keeps:
  "k \<noteq> rk \<Longrightarrow>
   transcriptionProgress (fst (snd (finishSuccess w st opts rk ck res log))) k
     = transcriptionProgress st k"
  by (simp add: finishSuccess_def Let_def setProgress_other storeInCache_def)

lemma afterCacheMiss_keeps:
  assumes "k \<noteq> rk"
  shows "transcriptionProgress (fst (snd (afterCacheMiss w st opts url rk ck))) k
           = transcriptionProgress st k"
  using assms
  by (auto simp: afterCacheMiss_def Let_def setProgress_other storeInCache_def
        finishFallback_keeps finishSuccess_keeps
      split: propValue.splits attempt.splits dest: processYouTubeVideo_keeps)

lemma POST_transcribe_never_sweeps:
  "k \<noteq> showNat (nowAtStart w) \<Longrightarrow>
   transcriptionProgress (fst (snd (POST_transcribe w st))) k = transcriptionProgress st k"
  by (simp add: POST_transcribe_def Let_def setProgress_other afterCacheMiss_keeps
      split: option.splits)

text \<open>
  C6 does not hold of the handler. \<open>updateProgress\<close> sweeps the entries older than a day
  (\<open>updateProgress_sweeps\<close>), but the POST handler never calls it: it writes the progress
  object directly and never removes the entry of another request
  (\<open>POST_transcribe_never_sweeps\<close>). Here a request for an unsupported platform updates
  its own entry three times and leaves an entry from 1970 in place, which
  \<open>updateProgress\<close> would have deleted.
\<close>

theorem POST_keeps_day_old_progress_entry:
  "isStale (nowAtStart vimeoWorld) (js ''1000'') \<and>
   transcriptionProgress oldProgressState (js ''1000'')
     = Some (progressOf 100 ''Process completed'') \<and>
   fst (POST_transcribe vimeoWorld oldProgressState)
     = ServerError500 (js ''Unsupported platform: vimeo'') \<and>
   transcriptionProgress (fst (snd (POST_transcribe vimeoWorld oldProgressState)))
       (js ''1700000000000'')
     = Some (progressOf 15 ''Extracting content'') \<and>
   transcriptionProgress (fst (snd (POST_transcribe vimeoWorld oldProgressState))) (js ''1000'')
     = Some (progressOf 100 ''Process completed'') \<and>
   updateProgress (nowAtStart vimeoWorld) (js ''1700000000000'') 15 ''Extracting content'' None
       (transcriptionProgress oldProgressState) (js ''1000'')
     = None"
proof -
  have now: "nowAtStart vimeoWorld = 1700000000000"
    by (simp add: vimeoWorld_def unreachableWorld_def)
  have distinct: "js ''1700000000000'' \<noteq> js ''1000''" "js ''1700000000000'' \<noteq> js ''__proto__''"
    "js ''1700000000000'' \<noteq> []"
    by (simp_all add: js_def)
  have old: "transcriptionProgress oldProgressState (js ''1000'')
               = Some (progressOf 100 ''Process completed'')"
    by (simp add: oldProgressState_def emptyState_def)
  have run: "POST_transcribe vimeoWorld oldProgressState
      = (ServerError500 (js ''Unsupported platform: vimeo''),
         setProgress
           (setProgress
              (setProgress oldProgressState (js ''1700000000000'') 1 ''Starting process'')
              (js ''1700000000000'') 10 ''Starting download process'')
           (js ''1700000000000'') 15 ''Extracting content'',
         [])"
    using distinct
    by (simp add: POST_transcribe_def Let_def now showNat_demo vimeoWorld_def
        unreachableWorld_def freshCached_def oldProgressState_def emptyState_def
        afterCacheMiss_def js_def setProgress_def)
  have swept: "updateProgress (nowAtStart vimeoWorld) (js ''1700000000000'') 15
                 ''Extracting content'' None (transcriptionProgress oldProgressState)
                 (js ''1000'') = None"
    using stale_1000 by (simp add: updateProgress_def Let_def now)
  from run old swept stale_1000 distinct show ?thesis
    by (simp add: now setProgress_def setProp_def)
qed

end
